theory Spec2Isabelle
  imports Main "HOL-Library.Log_Nat" "HOL-Library.Multiset"
begin

section \<open>Strings\<close>

text \<open>
  A JavaScript string is modelled as a HOL \<open>string\<close>; a \<open>char\<close> stands for a code unit
  below 256.  Skill identifiers and hit counts are integers (section 3 of the
  specification), taken within the range in which binary64 arithmetic on integers is
  exact, so that a sum of hit counts is the integer sum.  \<open>toString\<close> is the conversion
  \<open>String(n)\<close> that a template literal \<^verbatim>\<open>`${n}`\<close> and a property access
  \<^verbatim>\<open>acc[n]\<close> apply to an integer \<open>n\<close>: the decimal digits, with a leading minus sign
  for a negative number.
\<close>

definition digit_char :: "nat \<Rightarrow> char" where
  "digit_char d = ''0123456789'' ! d"

function nat_digits :: "nat \<Rightarrow> string" where
  "nat_digits n = (if n < 10 then [digit_char n] else nat_digits (n div 10) @ [digit_char (n mod 10)])"
  by pat_completeness auto
termination
  by (relation "measure (\<lambda>n. n)") auto

declare nat_digits.simps [simp del]

definition toString :: "int \<Rightarrow> string" where
  "toString i = (if i < 0 then CHR ''-'' # nat_digits (nat (- i)) else nat_digits (nat i))"

definition isDigit :: "char \<Rightarrow> bool" where
  "isDigit c = (c \<in> set ''0123456789'')"

definition digit_val :: "char \<Rightarrow> nat" where
  "digit_val c = of_char c - 48"

definition digits_val :: "string \<Rightarrow> nat" where
  "digits_val z = foldl (\<lambda>a c. 10 * a + digit_val c) 0 z"

section \<open>The data of a run\<close>

text \<open>
  The run is the JSON document of the telemetry service.  A collection or field that the
  document may lack is an \<open>option\<close>, \<open>None\<close> being \<^verbatim>\<open>undefined\<close>.  A gate or player
  identifier arrives either as a JSON number or as a JSON string.
\<close>

datatype jsid = IdNum int | IdStr string

record skill =
  s_id :: int
  s_damage :: "string option"
  s_hitCounts :: "int list option"

record player =
  p_id :: jsid
  p_name :: string
  p_damageDealt :: "string option"
  p_skills :: "skill list option"

record gate =
  g_id :: jsid
  g_name :: string
  g_players :: "player list option"

record run =
  gates :: "gate list option"

section \<open>Errors and upstream outcomes\<close>

text \<open>
  \<open>TypeError p\<close> is the engine's error for reading or calling property \<open>p\<close> of
  \<^verbatim>\<open>undefined\<close>; \<open>Error m\<close> is \<^verbatim>\<open>new Error(m)\<close>; \<open>Rejected m\<close> is the rejection of
  \<^verbatim>\<open>fetch\<close> or of \<^verbatim>\<open>Response.json()\<close> with message \<open>m\<close>.
\<close>

datatype js_error = TypeError string | Error string | Rejected string

text \<open>The telemetry call: \<^verbatim>\<open>fetch(runUrl)\<close>, \<^verbatim>\<open>runResponse.ok\<close>, \<^verbatim>\<open>runResponse.json()\<close>.\<close>

datatype run_outcome =
    RunFetchRejected string
  | RunNotOk string
  | RunJsonRejected string
  | RunOk run

text \<open>
  One skill lookup: \<^verbatim>\<open>fetch(skillUrl).then(res => res.json())\<close>.  The status of the
  response is never read.  A parsed body is \<^verbatim>\<open>null\<close>, or a value whose property
  \<^verbatim>\<open>_NameID_txt\<close> is absent (\<open>None\<close>) or a string.
\<close>

datatype lookup_body = JsonNull | JsonValue "string option"

datatype lookup_outcome = FetchRejected | JsonRejected | JsonResolved lookup_body

text \<open>
  What the lookup service sends.  \<^verbatim>\<open>fetch\<close> rejects only when no response arrives; a
  response of any status resolves it.  The response carries \<^verbatim>\<open>res.ok\<close>, which no
  handler reads, and a body that \<^verbatim>\<open>res.json()\<close> parses, or rejects (\<open>None\<close>).
\<close>

datatype skill_response = NoResponse | Response bool "lookup_body option"

fun res_json :: "skill_response \<Rightarrow> lookup_outcome" where
  "res_json NoResponse = FetchRejected"
| "res_json (Response ok None) = JsonRejected"
| "res_json (Response ok (Some body)) = JsonResolved body"

section \<open>Sets of identifiers\<close>

text \<open>
  A JavaScript \<^verbatim>\<open>Set\<close> keeps its members in insertion order; \<^verbatim>\<open>add\<close> of a member
  already present changes nothing.
\<close>

definition set_add :: "int list \<Rightarrow> int \<Rightarrow> int list" where
  "set_add s x = (if x \<in> set s then s else s @ [x])"

definition new_Set :: "int list \<Rightarrow> int list" where
  "new_Set xs = foldl set_add [] xs"

section \<open>Resolving one identifier\<close>

text \<open>
  The chain
  \<^verbatim>\<open>fetch(skillUrl).then(res => res.json()).then(data => ({id, name: data._NameID_txt || `Unknown Skill (${skillId})`})).catch(e => ({id, name: `Error Skill (${skillId})`}))\<close>
  is the same text in all three handlers.  Reading a property of \<^verbatim>\<open>null\<close> throws inside
  the second \<^verbatim>\<open>then\<close>, which the \<^verbatim>\<open>catch\<close> absorbs; the empty string is falsy.
\<close>

definition unknownSkill :: "int \<Rightarrow> string" where
  "unknownSkill skillId = ''Unknown Skill ('' @ toString skillId @ '')''"

definition errorSkill :: "int \<Rightarrow> string" where
  "errorSkill skillId = ''Error Skill ('' @ toString skillId @ '')''"

definition fetchSkillName :: "(int \<Rightarrow> lookup_outcome) \<Rightarrow> int \<Rightarrow> int \<times> string" where
  "fetchSkillName lookup skillId =
     (case lookup skillId of
        FetchRejected \<Rightarrow> (skillId, errorSkill skillId)
      | JsonRejected \<Rightarrow> (skillId, errorSkill skillId)
      | JsonResolved JsonNull \<Rightarrow> (skillId, errorSkill skillId)
      | JsonResolved (JsonValue None) \<Rightarrow> (skillId, unknownSkill skillId)
      | JsonResolved (JsonValue (Some txt)) \<Rightarrow>
          (skillId, if txt \<noteq> [] then txt else unknownSkill skillId))"

text \<open>
  \<^verbatim>\<open>skillNameEntries.reduce((acc, curr) => { acc[curr.id] = curr.name; return acc; }, {})\<close>:
  the keys of the object are the identifiers as strings.
\<close>

definition reduceEntries :: "(int \<times> string) list \<Rightarrow> (string \<rightharpoonup> string)" where
  "reduceEntries entries = foldl (\<lambda>acc curr. acc(toString (fst curr) \<mapsto> snd curr)) Map.empty entries"

section \<open>The full-data handler (index.js, handleApiRequest; the one-parameter handler)\<close>

text \<open>Step 2: the nested \<^verbatim>\<open>forEach\<close> loops that fill \<^verbatim>\<open>allSkillIds\<close>.\<close>

definition collectSkill :: "int list \<Rightarrow> skill \<Rightarrow> int list" where
  "collectSkill s sk = (if s_id sk > 0 then set_add s (s_id sk) else s)"

definition collectPlayer :: "int list \<Rightarrow> player \<Rightarrow> int list" where
  "collectPlayer s p =
     (case p_skills p of
        None \<Rightarrow> s
      | Some sks \<Rightarrow> if length sks > 0 then foldl collectSkill s sks else s)"

definition collectGate :: "int list \<Rightarrow> gate \<Rightarrow> int list" where
  "collectGate s g =
     (case g_players g of
        None \<Rightarrow> s
      | Some ps \<Rightarrow> if length ps > 0 then foldl collectPlayer s ps else s)"

definition allSkillIds :: "run \<Rightarrow> int list" where
  "allSkillIds runData =
     (case gates runData of
        None \<Rightarrow> []
      | Some gs \<Rightarrow> if length gs > 0 then foldl collectGate [] gs else [])"

text \<open>
  Steps 3 and 4: one lookup per collected identifier, then the dictionary with the
  entry for \<^verbatim>\<open>"-1"\<close> written last.  The first component is the list of identifiers for
  which \<^verbatim>\<open>fetch\<close> was called.
\<close>

definition resolveAll :: "(int \<Rightarrow> lookup_outcome) \<Rightarrow> int list \<Rightarrow> int list \<times> (string \<rightharpoonup> string)" where
  "resolveAll lookup uniqueSkillIds =
     (let skillNameEntries = map (fetchSkillName lookup) uniqueSkillIds;
          skillDictionary = reduceEntries skillNameEntries
      in (uniqueSkillIds, skillDictionary(''-1'' \<mapsto> ''Basic Attack'')))"

record full_data =
  runData :: run
  skillDictionary :: "string \<rightharpoonup> string"

text \<open>
  \<open>handleApiRequest\<close> of index.js: an exception leaves the function as \<open>Inl\<close>.  The
  second component of the result is the list of lookups issued.
\<close>

definition handleApiRequest ::
  "string \<Rightarrow> run_outcome \<Rightarrow> (int \<Rightarrow> lookup_outcome) \<Rightarrow> (js_error + full_data) \<times> int list" where
  "handleApiRequest ident runResponse lookup =
     (case runResponse of
        RunFetchRejected m \<Rightarrow> (Inl (Rejected m), [])
      | RunNotOk statusText \<Rightarrow>
          (Inl (Error (''Failed to fetch run data (ID: '' @ ident @ ''): '' @ statusText)), [])
      | RunJsonRejected m \<Rightarrow> (Inl (Rejected m), [])
      | RunOk rd \<Rightarrow>
          (let (calls, dict) = resolveAll lookup (allSkillIds rd)
           in (Inr \<lparr>runData = rd, skillDictionary = dict\<rparr>, calls)))"

text \<open>The apostrophe, for the messages that quote a parameter.\<close>

definition apostrophe :: string where
  "apostrophe = [CHR 0x27]"

definition missing_id :: string where
  "missing_id = ''Missing required query parameter: '' @ apostrophe @ ''id'' @ apostrophe"

datatype full_response = FullOk full_data | FullBadRequest string | FullServerError js_error

text \<open>The one-parameter serverless handler: the same steps inside \<^verbatim>\<open>try\<close>/\<^verbatim>\<open>catch\<close>.\<close>

definition handler_full ::
  "string option \<Rightarrow> run_outcome \<Rightarrow> (int \<Rightarrow> lookup_outcome) \<Rightarrow> full_response \<times> int list" where
  "handler_full ident runResponse lookup =
     (case ident of
        None \<Rightarrow> (FullBadRequest missing_id, [])
      | Some i \<Rightarrow>
          if i = [] then (FullBadRequest missing_id, [])
          else (case handleApiRequest i runResponse lookup of
                  (Inl e, calls) \<Rightarrow> (FullServerError e, calls)
                | (Inr d, calls) \<Rightarrow> (FullOk d, calls)))"

section \<open>The single-player handler (api.js)\<close>

text \<open>Step 3: \<^verbatim>\<open>[...new Set(player.skills.map(s => s.id))]\<close>, for a player with skills.\<close>

definition uniqueSkillIds :: "skill list \<Rightarrow> int list" where
  "uniqueSkillIds sks = new_Set (map s_id sks)"

text \<open>
  Step 4: a negative identifier gets its entry without a lookup.  The first component
  says whether \<^verbatim>\<open>fetch\<close> was called.
\<close>

definition skillNamePromise :: "(int \<Rightarrow> lookup_outcome) \<Rightarrow> int \<Rightarrow> bool \<times> (int \<times> string)" where
  "skillNamePromise lookup skillId =
     (if skillId < 0 then (False, (skillId, ''Basic Attack''))
      else (True, fetchSkillName lookup skillId))"

definition resolvePlayer :: "(int \<Rightarrow> lookup_outcome) \<Rightarrow> int list \<Rightarrow> int list \<times> (string \<rightharpoonup> string)" where
  "resolvePlayer lookup ids =
     (let skillNamePromises = map (skillNamePromise lookup) ids;
          skillNameEntries = map snd skillNamePromises
      in (map (fst \<circ> snd) (filter fst skillNamePromises), reduceEntries skillNameEntries))"

section \<open>JavaScript numbers\<close>

text \<open>
  A number is a binary64 value: \<open>NaN\<close>, an infinity, or a finite value, kept as the
  rational it denotes (the two zeros are not told apart; no operation below divides by a
  zero whose sign could be observed).  \<open>r64\<close> is the rounding of a real result to
  binary64, to nearest with ties to even: 53 significant bits, least exponent \<open>-1074\<close>,
  overflow to an infinity from \<open>2^1024\<close>.
\<close>

datatype jsnum = NaN | PosInf | NegInf | Num rat

definition ilog2 :: "rat \<Rightarrow> int" where
  "ilog2 q =
     (let a = fst (quotient_of q); b = snd (quotient_of q); e0 = bitlen a - bitlen b
      in if 2 powi e0 \<le> q then e0 else e0 - 1)"

definition roundEven :: "rat \<Rightarrow> int" where
  "roundEven x =
     (let f = \<lfloor>x\<rfloor>; d = x - of_int f
      in if d < 1 / 2 then f else if 1 / 2 < d then f + 1 else if even f then f else f + 1)"

definition r64 :: "rat \<Rightarrow> jsnum" where
  "r64 q =
     (if q = 0 then Num 0
      else let a = \<bar>q\<bar>; e = ilog2 a; p = max (e - 52) (- 1074);
               v = of_int (roundEven (a / 2 powi p)) * 2 powi p
           in if 2 ^ 1024 \<le> v then (if q < 0 then NegInf else PosInf)
              else Num (if q < 0 then - v else v))"

fun jsub :: "jsnum \<Rightarrow> jsnum \<Rightarrow> jsnum" where
  "jsub (Num a) (Num b) = r64 (a - b)"
| "jsub NaN y = NaN"
| "jsub x NaN = NaN"
| "jsub PosInf PosInf = NaN"
| "jsub NegInf NegInf = NaN"
| "jsub PosInf y = PosInf"
| "jsub NegInf y = NegInf"
| "jsub (Num a) PosInf = NegInf"
| "jsub (Num a) NegInf = PosInf"

fun jdiv :: "jsnum \<Rightarrow> jsnum \<Rightarrow> jsnum" where
  "jdiv (Num a) (Num b) =
     (if b = 0 then (if a = 0 then NaN else if 0 < a then PosInf else NegInf)
      else r64 (a / b))"
| "jdiv NaN y = NaN"
| "jdiv x NaN = NaN"
| "jdiv (Num a) y = Num 0"
| "jdiv PosInf (Num b) = (if b < 0 then NegInf else PosInf)"
| "jdiv NegInf (Num b) = (if b < 0 then PosInf else NegInf)"
| "jdiv x y = NaN"

fun jmul :: "jsnum \<Rightarrow> jsnum \<Rightarrow> jsnum" where
  "jmul (Num a) (Num b) = r64 (a * b)"
| "jmul NaN y = NaN"
| "jmul x NaN = NaN"
| "jmul PosInf (Num b) = (if b = 0 then NaN else if b < 0 then NegInf else PosInf)"
| "jmul NegInf (Num b) = (if b = 0 then NaN else if b < 0 then PosInf else NegInf)"
| "jmul (Num a) PosInf = (if a = 0 then NaN else if a < 0 then NegInf else PosInf)"
| "jmul (Num a) NegInf = (if a = 0 then NaN else if a < 0 then PosInf else NegInf)"
| "jmul PosInf PosInf = PosInf"
| "jmul NegInf NegInf = PosInf"
| "jmul x y = NegInf"

text \<open>The comparisons \<^verbatim>\<open><\<close> and \<^verbatim>\<open>>=\<close>: false as soon as an operand is \<open>NaN\<close>.\<close>

fun jlt :: "jsnum \<Rightarrow> jsnum \<Rightarrow> bool" where
  "jlt (Num a) (Num b) = (a < b)"
| "jlt NaN y = False"
| "jlt x NaN = False"
| "jlt x NegInf = False"
| "jlt NegInf y = True"
| "jlt PosInf y = False"
| "jlt x PosInf = True"

fun jge :: "jsnum \<Rightarrow> jsnum \<Rightarrow> bool" where
  "jge NaN y = False"
| "jge x NaN = False"
| "jge x y = (\<not> jlt x y)"

text \<open>
  \<^verbatim>\<open>parseFloat(x.toFixed(1))\<close>.  \<^verbatim>\<open>toFixed(1)\<close> prints the integer \<open>n\<close> for which
  \<open>n / 10\<close> is nearest to the magnitude of \<open>x\<close> (the larger \<open>n\<close> of two), and prints \<open>x\<close>
  itself from magnitude \<open>10^21\<close>, and for \<open>NaN\<close> and the infinities; \<^verbatim>\<open>parseFloat\<close>
  reads the decimal back into a binary64.
\<close>

fun parseFloat_toFixed1 :: "jsnum \<Rightarrow> jsnum" where
  "parseFloat_toFixed1 (Num x) =
     (if 10 ^ 21 \<le> \<bar>x\<bar> then Num x
      else let n = \<lfloor>\<bar>x\<bar> * 10 + 1 / 2\<rfloor>
           in r64 (if x < 0 then - (of_int n / 10) else of_int n / 10))"
| "parseFloat_toFixed1 x = x"

text \<open>The numbers that are an integer or an infinity: what \<^verbatim>\<open>parseInt\<close> returns besides \<open>NaN\<close>.\<close>

definition intnum :: "jsnum \<Rightarrow> bool" where
  "intnum d = (case d of NaN \<Rightarrow> False | PosInf \<Rightarrow> True | NegInf \<Rightarrow> True
                | Num q \<Rightarrow> of_int \<lfloor>q\<rfloor> = q)"

section \<open>Reading numbers from strings\<close>

definition isWhiteSpace :: "char \<Rightarrow> bool" where
  "isWhiteSpace c = (c \<in> set [CHR 0x09, CHR 0x0A, CHR 0x0B, CHR 0x0C, CHR 0x0D, CHR 0x20, CHR 0xA0])"

text \<open>\<^verbatim>\<open>s.replace(/\./g, '')\<close>\<close>

definition replaceDots :: "string \<Rightarrow> string" where
  "replaceDots s = filter (\<lambda>c. c \<noteq> CHR ''.'') s"

definition splitSign :: "string \<Rightarrow> bool \<times> string" where
  "splitSign s =
     (case s of
        [] \<Rightarrow> (False, [])
      | c # r \<Rightarrow> if c = CHR ''-'' then (True, r) else if c = CHR ''+'' then (False, r) else (False, s))"

text \<open>
  \<^verbatim>\<open>parseInt(str, 10)\<close>: leading white space, a sign, then the longest run of decimal
  digits; \<open>NaN\<close> when there is no digit.  The integer read is rounded to binary64
  (ECMAScript lets an engine approximate it beyond 20 digits; V8 rounds the exact value).
\<close>

definition parseInt10 :: "string \<Rightarrow> jsnum" where
  "parseInt10 str =
     (let (neg, s) = splitSign (dropWhile isWhiteSpace str);
          z = takeWhile isDigit s
      in if z = [] then NaN
         else r64 (if neg then - of_nat (digits_val z) else of_nat (digits_val z)))"

text \<open>
  The conversion of a string to a number that \<^verbatim>\<open>==\<close> applies (StringToNumber of
  ECMAScript): white space around, the empty string is 0, a binary, octal or hexadecimal
  integer, or a signed decimal literal with optional fraction and exponent, or
  \<^verbatim>\<open>Infinity\<close>; anything else is \<open>NaN\<close>.  The value read is rounded to binary64.
\<close>

definition trimWS :: "string \<Rightarrow> string" where
  "trimWS s = rev (dropWhile isWhiteSpace (rev (dropWhile isWhiteSpace s)))"

definition radix_digit :: "char \<Rightarrow> nat option" where
  "radix_digit c =
     (if isDigit c then Some (digit_val c)
      else if c = CHR ''a'' \<or> c = CHR ''A'' then Some 10
      else if c = CHR ''b'' \<or> c = CHR ''B'' then Some 11
      else if c = CHR ''c'' \<or> c = CHR ''C'' then Some 12
      else if c = CHR ''d'' \<or> c = CHR ''D'' then Some 13
      else if c = CHR ''e'' \<or> c = CHR ''E'' then Some 14
      else if c = CHR ''f'' \<or> c = CHR ''F'' then Some 15
      else None)"

fun radix_val :: "nat \<Rightarrow> nat \<Rightarrow> string \<Rightarrow> nat option" where
  "radix_val b acc [] = Some acc"
| "radix_val b acc (c # cs) =
     (case radix_digit c of
        None \<Rightarrow> None
      | Some d \<Rightarrow> if d < b then radix_val b (b * acc + d) cs else None)"

definition nonDecimalLiteral :: "string \<Rightarrow> nat option option" where
  "nonDecimalLiteral t =
     (case t of
        c0 # c1 # ds \<Rightarrow>
          if c0 \<noteq> CHR ''0'' then None
          else if c1 = CHR ''x'' \<or> c1 = CHR ''X'' then Some (if ds = [] then None else radix_val 16 0 ds)
          else if c1 = CHR ''o'' \<or> c1 = CHR ''O'' then Some (if ds = [] then None else radix_val 8 0 ds)
          else if c1 = CHR ''b'' \<or> c1 = CHR ''B'' then Some (if ds = [] then None else radix_val 2 0 ds)
          else None
      | _ \<Rightarrow> None)"

definition exponentPart :: "string \<Rightarrow> int option" where
  "exponentPart s =
     (case s of
        [] \<Rightarrow> Some 0
      | c # r \<Rightarrow>
          if c = CHR ''e'' \<or> c = CHR ''E'' then
            (let (neg, d) = splitSign r
             in if d \<noteq> [] \<and> list_all isDigit d
                then Some (if neg then - int (digits_val d) else int (digits_val d))
                else None)
          else None)"

definition strUnsignedDecimal :: "string \<Rightarrow> rat option" where
  "strUnsignedDecimal u =
     (let ip = takeWhile isDigit u; r1 = dropWhile isDigit u;
          (fp, r2) = (case r1 of
                        [] \<Rightarrow> ([], [])
                      | c # r \<Rightarrow> if c = CHR ''.'' then (takeWhile isDigit r, dropWhile isDigit r)
                                 else ([], r1))
      in if ip = [] \<and> fp = [] then None
         else (case exponentPart r2 of
                 None \<Rightarrow> None
               | Some ex \<Rightarrow> Some (of_nat (digits_val (ip @ fp)) * 10 powi (ex - int (length fp)))))"

definition StringToNumber :: "string \<Rightarrow> jsnum" where
  "StringToNumber str =
     (let t = trimWS str
      in if t = [] then Num 0
         else (case nonDecimalLiteral t of
                 Some None \<Rightarrow> NaN
               | Some (Some n) \<Rightarrow> r64 (of_nat n)
               | None \<Rightarrow>
                   (let (neg, u) = splitSign t
                    in if u = ''Infinity'' then (if neg then NegInf else PosInf)
                       else (case strUnsignedDecimal u of
                               None \<Rightarrow> NaN
                             | Some mv \<Rightarrow> r64 (if neg then - mv else mv)))))"

text \<open>
  \<^verbatim>\<open>g.id === gate_id\<close> and \<^verbatim>\<open>p.id == player_id\<close>, the right operand being a query
  parameter, a string.  Strict equality of a number and a string is false; loose equality
  converts the string to a number first.
\<close>

fun strictEq :: "jsid \<Rightarrow> string \<Rightarrow> bool" where
  "strictEq (IdStr s) q = (s = q)"
| "strictEq (IdNum n) q = False"

fun looseEq :: "jsid \<Rightarrow> string \<Rightarrow> bool" where
  "looseEq (IdStr s) q = (s = q)"
| "looseEq (IdNum n) q = (StringToNumber q = Num (of_int n))"

section \<open>The aggregation of one player's skills (api.js, step 6)\<close>

record row =
  name :: string
  damage :: jsnum
  percent :: jsnum
  crit_hits :: string
  crit_rate :: jsnum

text \<open>
  The body of \<^verbatim>\<open>player.skills.map(skill => ...)\<close>.  \<^verbatim>\<open>skill.damage.replace\<close> and
  \<^verbatim>\<open>skill.hitCounts[1]\<close> throw a TypeError when the field is \<^verbatim>\<open>undefined\<close>.
\<close>

definition cleanSkill :: "jsnum \<Rightarrow> (string \<rightharpoonup> string) \<Rightarrow> skill \<Rightarrow> js_error + row" where
  "cleanSkill totalDamage dict sk =
     (case s_damage sk of
        None \<Rightarrow> Inl (TypeError ''replace'')
      | Some d \<Rightarrow>
         (let dmg = parseInt10 (replaceDots d);
              pct = parseFloat_toFixed1 (jmul (jdiv dmg totalDamage) (Num 100))
          in case s_hitCounts sk of
               None \<Rightarrow> Inl (TypeError ''1'')
             | Some hc \<Rightarrow>
                (let crits = (if 1 < length hc then hc ! 1 else 0);
                     totalHits = foldl (+) 0 hc;
                     critHitsStr = toString crits @ '' / '' @ toString totalHits;
                     critRate = (if totalHits > 0
                                 then parseFloat_toFixed1
                                        (jmul (jdiv (Num (of_int crits)) (Num (of_int totalHits))) (Num 100))
                                 else Num 0)
                 in Inr \<lparr>name = (case dict (toString (s_id sk)) of
                                   None \<Rightarrow> unknownSkill (s_id sk)
                                 | Some n \<Rightarrow> if n \<noteq> [] then n else unknownSkill (s_id sk)),
                          damage = dmg, percent = pct,
                          crit_hits = critHitsStr, crit_rate = critRate\<rparr>)))"

fun mapSkills :: "jsnum \<Rightarrow> (string \<rightharpoonup> string) \<Rightarrow> skill list \<Rightarrow> js_error + row list" where
  "mapSkills totalDamage dict [] = Inr []"
| "mapSkills totalDamage dict (sk # sks) =
     (case cleanSkill totalDamage dict sk of
        Inl e \<Rightarrow> Inl e
      | Inr r \<Rightarrow> (case mapSkills totalDamage dict sks of
                   Inl e \<Rightarrow> Inl e
                 | Inr rs \<Rightarrow> Inr (r # rs)))"

text \<open>
  \<^verbatim>\<open>.sort((a, b) => b.damage - a.damage)\<close>.  A comparator result that is \<open>NaN\<close> counts
  as zero.  The sort of ECMAScript is stable, and its result is determined by the
  comparator when the comparator is consistent; it is written here as the stable
  insertion sort.  (With a \<open>NaN\<close> damage the comparator is not consistent and the order
  is left to the engine.)
\<close>

definition compareFn :: "row \<Rightarrow> row \<Rightarrow> jsnum" where
  "compareFn a b = jsub (damage b) (damage a)"

fun insertRow :: "row \<Rightarrow> row list \<Rightarrow> row list" where
  "insertRow x [] = [x]"
| "insertRow x (y # ys) =
     (if jlt (Num 0) (compareFn x y) then y # insertRow x ys else x # y # ys)"

definition sortRows :: "row list \<Rightarrow> row list" where
  "sortRows rows = foldr insertRow rows []"

definition cleanedData :: "jsnum \<Rightarrow> (string \<rightharpoonup> string) \<Rightarrow> skill list \<Rightarrow> js_error + row list" where
  "cleanedData totalDamage dict sks =
     (case mapSkills totalDamage dict sks of
        Inl e \<Rightarrow> Inl e
      | Inr rows \<Rightarrow> Inr (sortRows rows))"

section \<open>The single-player handler as a whole\<close>

datatype api_response =
    RowsOk "row list"
  | MessageOk string "row list"
  | BadRequest string
  | ServerError js_error

definition missing_params :: string where
  "missing_params = ''Missing required query parameters. '' @ apostrophe @ ''id'' @ apostrophe
     @ '', '' @ apostrophe @ ''player_id'' @ apostrophe @ '', and '' @ apostrophe @ ''gate_id''
     @ apostrophe @ '' are all required.''"

definition findGate :: "gate list \<Rightarrow> string \<Rightarrow> gate option" where
  "findGate gs gate_id = find (\<lambda>g. strictEq (g_id g) gate_id) gs"

definition findPlayer :: "player list \<Rightarrow> string \<Rightarrow> player option" where
  "findPlayer ps player_id = find (\<lambda>p. looseEq (p_id p) player_id) ps"

text \<open>
  Steps 3 to 6 for the player found, whose total damage is not zero.
\<close>

definition analysePlayer ::
  "jsnum \<Rightarrow> player \<Rightarrow> (int \<Rightarrow> lookup_outcome) \<Rightarrow> api_response \<times> int list" where
  "analysePlayer totalDamage pl lookup =
     (case p_skills pl of
        None \<Rightarrow> (ServerError (TypeError ''map''), [])
      | Some sks \<Rightarrow>
          (let (calls, dict) = resolvePlayer lookup (uniqueSkillIds sks)
           in case cleanedData totalDamage dict sks of
                Inl e \<Rightarrow> (ServerError e, calls)
              | Inr rows \<Rightarrow> (RowsOk rows, calls)))"

text \<open>Steps 1 and 2, once the three parameters are known to be non-empty strings.\<close>

definition handlerBody ::
  "string \<Rightarrow> string \<Rightarrow> string \<Rightarrow> run_outcome \<Rightarrow> (int \<Rightarrow> lookup_outcome)
     \<Rightarrow> api_response \<times> int list" where
  "handlerBody ident player_id gate_id runResponse lookup =
     (case runResponse of
        RunFetchRejected m \<Rightarrow> (ServerError (Rejected m), [])
      | RunNotOk statusText \<Rightarrow> (ServerError (Error (''Failed to fetch run data: '' @ statusText)), [])
      | RunJsonRejected m \<Rightarrow> (ServerError (Rejected m), [])
      | RunOk rd \<Rightarrow>
         (case gates rd of
            None \<Rightarrow> (ServerError (TypeError ''find''), [])
          | Some gs \<Rightarrow>
             (case findGate gs gate_id of
                None \<Rightarrow> (ServerError (Error (''Gate with ID '' @ apostrophe @ gate_id @ apostrophe
                                             @ '' not found.'')), [])
              | Some gt \<Rightarrow>
                 (case g_players gt of
                    None \<Rightarrow> (ServerError (TypeError ''find''), [])
                  | Some ps \<Rightarrow>
                     (case findPlayer ps player_id of
                        None \<Rightarrow> (ServerError (Error (''Player with ID '' @ apostrophe @ player_id
                                    @ apostrophe @ '' not found in gate '' @ apostrophe @ g_name gt
                                    @ apostrophe @ ''.'')), [])
                      | Some pl \<Rightarrow>
                         (case p_damageDealt pl of
                            None \<Rightarrow> (ServerError (TypeError ''replace''), [])
                          | Some dd \<Rightarrow>
                             (let totalDamage = parseInt10 (replaceDots dd)
                              in if totalDamage = Num 0
                                 then (MessageOk ''Player has 0 damage for this gate.'' [], [])
                                 else analysePlayer totalDamage pl lookup)))))))"

text \<open>
  The handler: \<^verbatim>\<open>if (!id || !player_id || !gate_id)\<close> answers 400 for a parameter that
  is missing or empty; every exception of the body is answered with 500.
\<close>

definition handler ::
  "string option \<Rightarrow> string option \<Rightarrow> string option \<Rightarrow> run_outcome \<Rightarrow> (int \<Rightarrow> lookup_outcome)
     \<Rightarrow> api_response \<times> int list" where
  "handler ident player_id gate_id runResponse lookup =
     (case (ident, player_id, gate_id) of
        (Some i, Some p, Some g) \<Rightarrow>
          if i = [] \<or> p = [] \<or> g = [] then (BadRequest missing_params, [])
          else handlerBody i p g runResponse lookup
      | _ \<Rightarrow> (BadRequest missing_params, []))"

section \<open>The scope of a request, and sample data\<close>

text \<open>The skill identifiers a run refers to, in document order.\<close>

definition skillsOf :: "player \<Rightarrow> skill list" where
  "skillsOf p = (case p_skills p of None \<Rightarrow> [] | Some sks \<Rightarrow> sks)"

definition playersOf :: "gate \<Rightarrow> player list" where
  "playersOf g = (case g_players g of None \<Rightarrow> [] | Some ps \<Rightarrow> ps)"

definition gatesOf :: "run \<Rightarrow> gate list" where
  "gatesOf rd = (case gates rd of None \<Rightarrow> [] | Some gs \<Rightarrow> gs)"

definition player_skill_ids :: "player \<Rightarrow> int list" where
  "player_skill_ids p = map s_id (skillsOf p)"

definition gate_skill_ids :: "gate \<Rightarrow> int list" where
  "gate_skill_ids g = concat (map player_skill_ids (playersOf g))"

definition run_skill_ids :: "run \<Rightarrow> int list" where
  "run_skill_ids rd = concat (map gate_skill_ids (gatesOf rd))"

text \<open>A small run: one gate, one player, a skill and a basic attack.\<close>

definition fireball :: skill where
  "fireball = \<lparr>s_id = 5, s_damage = Some ''1.000'', s_hitCounts = Some [8, 2]\<rparr>"

definition basic_attack :: skill where
  "basic_attack = \<lparr>s_id = - 1, s_damage = Some ''500'', s_hitCounts = Some [3, 0]\<rparr>"

definition sample_player :: player where
  "sample_player = \<lparr>p_id = IdNum 62257, p_name = ''Duck'', p_damageDealt = Some ''1.500'',
     p_skills = Some [fireball, basic_attack]\<rparr>"

definition sample_gate :: gate where
  "sample_gate = \<lparr>g_id = IdStr ''776482144628289536'', g_name = ''Total'',
     g_players = Some [sample_player]\<rparr>"

definition sample_run :: run where
  "sample_run = \<lparr>gates = Some [sample_gate]\<rparr>"

definition sample_lookup :: "int \<Rightarrow> lookup_outcome" where
  "sample_lookup i =
     (if i = 5 then JsonResolved (JsonValue (Some ''Fireball''))
      else if i = 9 then JsonResolved (JsonValue None)
      else if i = 11 then JsonResolved JsonNull
      else FetchRejected)"

text \<open>
  A service that answers the lookups of 5 and 9 with a non-success status and a body that
  parses, the lookup of 11 with a success status and the body \<^verbatim>\<open>null\<close>, and does not
  answer any other.
\<close>

definition status_service :: "int \<Rightarrow> skill_response" where
  "status_service i =
     (if i = 5 then Response False (Some (JsonValue (Some ''Fireball'')))
      else if i = 9 then Response False (Some (JsonValue None))
      else if i = 11 then Response True (Some JsonNull)
      else NoResponse)"

text \<open>A run whose only skill record has the negative identifier \<open>-2\<close>.\<close>

definition other_attack :: skill where
  "other_attack = \<lparr>s_id = - 2, s_damage = Some ''250'', s_hitCounts = Some [4, 1]\<rparr>"

definition other_run :: run where
  "other_run = \<lparr>gates = Some [\<lparr>g_id = IdStr ''1'', g_name = ''Pride'',
     g_players = Some [\<lparr>p_id = IdNum 7, p_name = ''Goose'', p_damageDealt = Some ''250'',
       p_skills = Some [other_attack]\<rparr>]\<rparr>]\<rparr>"

text \<open>A second player, whose identifier is the number 7.\<close>

definition goose :: player where
  "goose = \<lparr>p_id = IdNum 7, p_name = ''Goose'', p_damageDealt = Some ''250'',
     p_skills = Some [other_attack]\<rparr>"

text \<open>A skill record that has both fields the aggregation reads.\<close>

definition present :: "skill \<Rightarrow> bool" where
  "present sk = (s_damage sk \<noteq> None \<and> s_hitCounts sk \<noteq> None)"

text \<open>A skill record that has both fields, with a damage that \<^verbatim>\<open>parseInt\<close> reads as a number.\<close>

definition wellFormed :: "skill \<Rightarrow> bool" where
  "wellFormed sk =
     (case s_damage sk of
        None \<Rightarrow> False
      | Some d \<Rightarrow> parseInt10 (replaceDots d) \<noteq> NaN \<and> s_hitCounts sk \<noteq> None)"

text \<open>
  A player without damage, in a run of its own; records that lack the damage, and a record
  whose damage is not a number.
\<close>

definition zero_player :: player where
  "zero_player = \<lparr>p_id = IdStr ''p1'', p_name = ''Swan'', p_damageDealt = Some ''0.000'',
     p_skills = None\<rparr>"

definition zero_run :: run where
  "zero_run = \<lparr>gates = Some [\<lparr>g_id = IdStr ''g1'', g_name = ''Envy'',
     g_players = Some [zero_player]\<rparr>]\<rparr>"

definition no_damage :: "int \<Rightarrow> skill" where
  "no_damage i = \<lparr>s_id = i, s_damage = None, s_hitCounts = Some [8, 2]\<rparr>"

definition bad_damage :: skill where
  "bad_damage = \<lparr>s_id = 5, s_damage = Some ''abc'', s_hitCounts = Some [0, 0]\<rparr>"

text \<open>A run whose gate has a number as identifier.\<close>

definition numbered_run :: run where
  "numbered_run = \<lparr>gates = Some [\<lparr>g_id = IdNum 3, g_name = ''Sloth'',
     g_players = Some [sample_player]\<rparr>]\<rparr>"

text \<open>
  The run of the Fireball scenario: one gate, one player with total damage
  \<^verbatim>\<open>"1.000"\<close>, and the one skill record.
\<close>

definition scenario_player :: player where
  "scenario_player = \<lparr>p_id = IdNum 62257, p_name = ''Duck'', p_damageDealt = Some ''1.000'',
     p_skills = Some [fireball]\<rparr>"

definition scenario_run :: run where
  "scenario_run = \<lparr>gates = Some [\<lparr>g_id = IdStr ''776482144628289536'', g_name = ''Total'',
     g_players = Some [scenario_player]\<rparr>]\<rparr>"

section \<open>Decimal strings\<close>

lemma below_ten: "d < 10 \<Longrightarrow> d \<in> {0, 1, 2, 3, 4, 5, 6, 7, 8, 9::nat}"
  by auto

lemma digit_val_digit_char: "d < 10 \<Longrightarrow> digit_val (digit_char d) = d"
  by (drule below_ten) (auto simp: digit_val_def digit_char_def)

lemma nat_digits_small: "n < 10 \<Longrightarrow> nat_digits n = [digit_char n]"
  by (subst nat_digits.simps) simp

lemma nat_digits_big: "\<not> n < 10 \<Longrightarrow> nat_digits n = nat_digits (n div 10) @ [digit_char (n mod 10)]"
  by (subst nat_digits.simps) simp

lemma digits_val_snoc: "digits_val (xs @ [c]) = 10 * digits_val xs + digit_val c"
  by (simp add: digits_val_def)

lemma digits_val_nat_digits: "digits_val (nat_digits n) = n"
proof (induction n rule: nat_digits.induct)
  case (1 n)
  show ?case
  proof (cases "n < 10")
    case True
    then show ?thesis by (simp add: nat_digits_small digits_val_def digit_val_digit_char)
  next
    case False
    with 1 show ?thesis
      by (simp add: nat_digits_big digits_val_snoc digit_val_digit_char)
  qed
qed

lemma isDigit_digit_char: "d < 10 \<Longrightarrow> isDigit (digit_char d)"
  by (drule below_ten) (auto simp: isDigit_def digit_char_def)

lemma nat_digits_all_digits: "list_all isDigit (nat_digits n)"
proof (induction n rule: nat_digits.induct)
  case (1 n)
  show ?case
  proof (cases "n < 10")
    case True
    then show ?thesis by (simp add: nat_digits_small isDigit_digit_char)
  next
    case False
    with 1 show ?thesis by (simp add: nat_digits_big isDigit_digit_char)
  qed
qed

lemma nat_digits_nonempty: "nat_digits n \<noteq> []"
  by (cases "n < 10") (simp_all add: nat_digits_small nat_digits_big)

lemma nat_digits_inj: "nat_digits a = nat_digits b \<Longrightarrow> a = b"
  by (metis digits_val_nat_digits)

lemma nat_digits_no_minus: "nat_digits n \<noteq> CHR ''-'' # xs"
proof
  assume "nat_digits n = CHR ''-'' # xs"
  with nat_digits_all_digits[of n] have "isDigit CHR ''-''" by simp
  then show False by (simp add: isDigit_def)
qed

lemma toString_inj: "toString a = toString b \<Longrightarrow> a = b"
proof -
  assume eq: "toString a = toString b"
  show ?thesis
  proof (cases "a < 0"; cases "b < 0")
    assume "a < 0" "b < 0"
    with eq have "nat (- a) = nat (- b)" by (auto simp: toString_def dest: nat_digits_inj)
    with \<open>a < 0\<close> \<open>b < 0\<close> show ?thesis by simp
  next
    assume "a < 0" "\<not> b < 0"
    with eq nat_digits_no_minus[of "nat b" "nat_digits (nat (- a))"] show ?thesis
      by (simp add: toString_def)
  next
    assume "\<not> a < 0" "b < 0"
    with eq nat_digits_no_minus[of "nat a" "nat_digits (nat (- b))"] show ?thesis
      by (simp add: toString_def)
  next
    assume "\<not> a < 0" "\<not> b < 0"
    with eq have "nat a = nat b" by (auto simp: toString_def dest: nat_digits_inj)
    with \<open>\<not> a < 0\<close> \<open>\<not> b < 0\<close> show ?thesis by simp
  qed
qed

lemma toString_eq_iff: "toString a = toString b \<longleftrightarrow> a = b"
  using toString_inj by auto

section \<open>Sets and the collectors\<close>

lemma set_add_set: "set (set_add s x) = insert x (set s)"
  by (auto simp: set_add_def)

lemma set_add_distinct: "distinct s \<Longrightarrow> distinct (set_add s x)"
  by (simp add: set_add_def)

lemma foldl_set_add: "set (foldl set_add s xs) = set s \<union> set xs \<and> (distinct s \<longrightarrow> distinct (foldl set_add s xs))"
  by (induction xs arbitrary: s) (auto simp: set_add_set set_add_distinct)

lemma new_Set_set: "set (new_Set xs) = set xs"
  by (simp add: new_Set_def foldl_set_add)

lemma new_Set_distinct: "distinct (new_Set xs)"
  by (simp add: new_Set_def foldl_set_add)

lemma collectSkills_set:
  "set (foldl collectSkill s sks) = set s \<union> {i \<in> s_id ` set sks. 0 < i}"
  by (induction sks arbitrary: s) (auto simp: collectSkill_def set_add_set)

lemma collectSkills_distinct: "distinct s \<Longrightarrow> distinct (foldl collectSkill s sks)"
  by (induction sks arbitrary: s) (auto simp: collectSkill_def set_add_distinct)


lemma collectPlayer_set: "set (collectPlayer s p) = set s \<union> {i \<in> set (player_skill_ids p). 0 < i}"
  by (auto simp: collectPlayer_def player_skill_ids_def skillsOf_def collectSkills_set split: option.splits)

lemma collectPlayer_distinct: "distinct s \<Longrightarrow> distinct (collectPlayer s p)"
  by (auto simp: collectPlayer_def collectSkills_distinct split: option.splits)

lemma collectPlayers_set:
  "set (foldl collectPlayer s ps) = set s \<union> {i \<in> set (concat (map player_skill_ids ps)). 0 < i}"
  by (induction ps arbitrary: s) (auto simp: collectPlayer_set)

lemma collectPlayers_distinct: "distinct s \<Longrightarrow> distinct (foldl collectPlayer s ps)"
  by (induction ps arbitrary: s) (auto simp: collectPlayer_distinct)

lemma collectGate_set: "set (collectGate s g) = set s \<union> {i \<in> set (gate_skill_ids g). 0 < i}"
  by (auto simp: collectGate_def gate_skill_ids_def playersOf_def collectPlayers_set split: option.splits)

lemma collectGate_distinct: "distinct s \<Longrightarrow> distinct (collectGate s g)"
  by (auto simp: collectGate_def collectPlayers_distinct split: option.splits)

lemma collectGates_set:
  "set (foldl collectGate s gs) = set s \<union> {i \<in> set (concat (map gate_skill_ids gs)). 0 < i}"
  by (induction gs arbitrary: s) (auto simp: collectGate_set)

lemma collectGates_distinct: "distinct s \<Longrightarrow> distinct (foldl collectGate s gs)"
  by (induction gs arbitrary: s) (auto simp: collectGate_distinct)

lemma allSkillIds_set: "set (allSkillIds rd) = {i \<in> set (run_skill_ids rd). 0 < i}"
  by (auto simp: allSkillIds_def run_skill_ids_def gatesOf_def collectGates_set split: option.splits)

lemma allSkillIds_distinct: "distinct (allSkillIds rd)"
  by (auto simp: allSkillIds_def collectGates_distinct split: option.splits)

lemma uniqueSkillIds_set: "set (uniqueSkillIds sks) = s_id ` set sks"
  by (simp add: uniqueSkillIds_def new_Set_set)

lemma uniqueSkillIds_distinct: "distinct (uniqueSkillIds sks)"
  by (simp add: uniqueSkillIds_def new_Set_distinct)

section \<open>The dictionaries\<close>

lemma toString_minus1: "toString (- 1) = ''-1''"
  by (simp add: toString_def nat_digits.simps digit_char_def)

lemma foldl_entries:
  "foldl (\<lambda>acc curr. acc(toString (fst curr) \<mapsto> snd curr)) m (map (\<lambda>i. (i, g i)) ids) (toString k)
     = (if k \<in> set ids then Some (g k) else m (toString k))"
  by (induction ids arbitrary: m) (auto simp: toString_eq_iff)

lemma reduceEntries_map:
  "reduceEntries (map (\<lambda>i. (i, g i)) ids) (toString k) = (if k \<in> set ids then Some (g k) else None)"
  by (simp add: reduceEntries_def foldl_entries)

lemma foldl_entries_dom:
  "dom (foldl (\<lambda>acc curr. acc(toString (fst curr) \<mapsto> snd curr)) m (map (\<lambda>i. (i, g i)) ids))
     = dom m \<union> toString ` set ids"
  by (induction ids arbitrary: m) auto

lemma reduceEntries_dom: "dom (reduceEntries (map (\<lambda>i. (i, g i)) ids)) = toString ` set ids"
  by (simp add: reduceEntries_def foldl_entries_dom)

lemma fetchSkillName_fst: "fetchSkillName lookup i = (i, snd (fetchSkillName lookup i))"
  by (simp add: fetchSkillName_def split: lookup_outcome.splits lookup_body.splits option.splits)

lemma map_fetchSkillName:
  "map (fetchSkillName lookup) ids = map (\<lambda>i. (i, snd (fetchSkillName lookup i))) ids"
  using fetchSkillName_fst by (induction ids) auto

lemma resolveAll_calls: "fst (resolveAll lookup ids) = ids"
  by (simp add: resolveAll_def Let_def)

lemma resolveAll_key:
  "snd (resolveAll lookup ids) (toString k) =
     (if k = - 1 then Some ''Basic Attack''
      else if k \<in> set ids then Some (snd (fetchSkillName lookup k)) else None)"
  by (simp add: resolveAll_def Let_def map_fetchSkillName reduceEntries_map
        toString_minus1[symmetric] toString_eq_iff del: toString_minus1)

lemma resolveAll_dom: "dom (snd (resolveAll lookup ids)) = toString ` (insert (- 1) (set ids))"
  by (simp add: resolveAll_def Let_def map_fetchSkillName reduceEntries_dom toString_minus1)

lemma fst_fetchSkillName: "fst (fetchSkillName lookup i) = i"
  by (subst fetchSkillName_fst) simp

lemma map_skillNamePromise:
  "map (snd \<circ> skillNamePromise lookup) ids =
     map (\<lambda>i. (i, if i < 0 then ''Basic Attack'' else snd (fetchSkillName lookup i))) ids"
  using fetchSkillName_fst by (induction ids) (auto simp: skillNamePromise_def)

lemma resolvePlayer_calls: "fst (resolvePlayer lookup ids) = filter (\<lambda>i. \<not> i < 0) ids"
  by (induction ids) (auto simp: resolvePlayer_def Let_def skillNamePromise_def fst_fetchSkillName)

lemma resolvePlayer_key:
  "snd (resolvePlayer lookup ids) (toString k) =
     (if k \<in> set ids then Some (if k < 0 then ''Basic Attack'' else snd (fetchSkillName lookup k)) else None)"
  by (simp add: resolvePlayer_def Let_def map_skillNamePromise reduceEntries_map)

lemma resolvePlayer_dom: "dom (snd (resolvePlayer lookup ids)) = toString ` set ids"
  by (simp add: resolvePlayer_def Let_def map_skillNamePromise reduceEntries_dom)


section \<open>The handlers on a fetched run\<close>

lemma handleApiRequest_ok:
  "handleApiRequest ident (RunOk rd) lookup =
     (Inr \<lparr>runData = rd, skillDictionary = snd (resolveAll lookup (allSkillIds rd))\<rparr>,
      fst (resolveAll lookup (allSkillIds rd)))"
  by (simp add: handleApiRequest_def split: prod.splits)

lemma handler_full_ok:
  "ident \<noteq> [] \<Longrightarrow> handler_full (Some ident) (RunOk rd) lookup =
     (FullOk \<lparr>runData = rd, skillDictionary = snd (resolveAll lookup (allSkillIds rd))\<rparr>,
      fst (resolveAll lookup (allSkillIds rd)))"
  by (simp add: handler_full_def handleApiRequest_ok)

lemma sample_allSkillIds: "allSkillIds sample_run = [5]"
  by (simp add: allSkillIds_def sample_run_def sample_gate_def sample_player_def fireball_def
        basic_attack_def collectGate_def collectPlayer_def collectSkill_def set_add_def)

lemma sample_uniqueSkillIds: "uniqueSkillIds [fireball, basic_attack] = [5, - 1]"
  by (simp add: uniqueSkillIds_def new_Set_def set_add_def fireball_def basic_attack_def)

section \<open>Rounding to binary64\<close>

lemma pow2_pos: "0 < (2::rat) powi e"
  by (simp add: power_int_def)

lemma pow2_mono: "a \<le> b \<Longrightarrow> (2::rat) powi a \<le> 2 powi b"
  by (rule power_int_increasing) simp_all

lemma pow2_strict_mono: "a < b \<Longrightarrow> (2::rat) powi a < 2 powi b"
  by (rule power_int_strict_increasing) simp_all

lemma pow2_nat: "0 \<le> e \<Longrightarrow> (2::rat) powi e = 2 ^ nat e"
  by (simp add: power_int_def)

lemma ilog2_bounds:
  assumes "0 < q"
  shows "2 powi (ilog2 q) \<le> q \<and> q < 2 powi (ilog2 q + 1)"
proof -
  obtain a b where ab: "quotient_of q = (a, b)" by (cases "quotient_of q")
  then have bpos: "0 < b" and q: "q = of_int a / of_int b"
    using quotient_of_denom_pos quotient_of_div by auto
  with assms have apos: "0 < a"
    by (simp add: zero_less_divide_iff)
  define la where "la = bitlen a"
  define lb where "lb = bitlen b"
  have la1: "1 \<le> la" and lb1: "1 \<le> lb"
    using apos bpos by (auto simp: la_def lb_def bitlen_alt_def)
  have ba: "(2::rat) powi (la - 1) \<le> of_int a" "of_int a < (2::rat) powi la"
  proof -
    have "2 ^ nat (la - 1) \<le> a" "a < 2 ^ nat la"
      using bitlen_bounds[OF apos] by (auto simp: la_def)
    then have "(of_int (2 ^ nat (la - 1))::rat) \<le> of_int a" "(of_int a::rat) < of_int (2 ^ nat la)"
      by (simp_all only: of_int_le_iff of_int_less_iff)
    then show "(2::rat) powi (la - 1) \<le> of_int a" "of_int a < (2::rat) powi la"
      using la1 by (simp_all add: pow2_nat)
  qed
  have bb: "(2::rat) powi (lb - 1) \<le> of_int b" "of_int b < (2::rat) powi lb"
  proof -
    have "2 ^ nat (lb - 1) \<le> b" "b < 2 ^ nat lb"
      using bitlen_bounds[OF bpos] by (auto simp: lb_def)
    then have "(of_int (2 ^ nat (lb - 1))::rat) \<le> of_int b" "(of_int b::rat) < of_int (2 ^ nat lb)"
      by (simp_all only: of_int_le_iff of_int_less_iff)
    then show "(2::rat) powi (lb - 1) \<le> of_int b" "of_int b < (2::rat) powi lb"
      using lb1 by (simp_all add: pow2_nat)
  qed
  have brat: "0 < (of_int b::rat)" using bpos by simp
  have up: "q < 2 powi (la - lb + 1)"
  proof -
    have "of_int a < (2::rat) powi (la - lb + 1) * 2 powi (lb - 1)"
      using ba(2) by (simp add: power_int_add[symmetric])
    also have "\<dots> \<le> 2 powi (la - lb + 1) * of_int b"
      using bb(1) pow2_pos by (simp add: mult_left_mono)
    finally show ?thesis using brat by (simp add: q pos_divide_less_eq)
  qed
  have lo: "2 powi (la - lb - 1) \<le> q"
  proof -
    have "(2::rat) powi (la - lb - 1) * of_int b \<le> 2 powi (la - lb - 1) * 2 powi lb"
      using bb(2) pow2_pos by (simp add: mult_left_mono)
    also have "\<dots> = 2 powi (la - 1)"
      by (simp add: power_int_add[symmetric])
    also have "\<dots> \<le> of_int a" by (rule ba(1))
    finally show ?thesis using brat by (simp add: q pos_le_divide_eq)
  qed
  show ?thesis
    using up lo by (simp add: ilog2_def ab Let_def la_def lb_def not_le less_imp_le)
qed

lemma ilog2_unique:
  assumes "0 < q" and "2 powi e \<le> q" and "q < 2 powi (e + 1)"
  shows "ilog2 q = e"
proof (rule ccontr)
  assume ne: "ilog2 q \<noteq> e"
  note b = ilog2_bounds[OF assms(1)]
  show False
  proof (cases "ilog2 q < e")
    case True
    then have "ilog2 q + 1 \<le> e" by simp
    then have "(2::rat) powi (ilog2 q + 1) \<le> 2 powi e" by (rule pow2_mono)
    with b assms show False by simp
  next
    case False
    with ne have "e + 1 \<le> ilog2 q" by simp
    then have "(2::rat) powi (e + 1) \<le> 2 powi (ilog2 q)" by (rule pow2_mono)
    with b assms show False by simp
  qed
qed

lemma roundEven_of_int: "roundEven (of_int k) = k"
  by (simp add: roundEven_def)

lemma roundEven_floor: "\<lfloor>x\<rfloor> \<le> roundEven x"
  by (simp add: roundEven_def Let_def)

lemma roundEven_ge: "of_int k \<le> x \<Longrightarrow> k \<le> roundEven x"
proof -
  assume "of_int k \<le> x"
  then have "k \<le> \<lfloor>x\<rfloor>" by (simp add: le_floor_iff)
  with roundEven_floor [of x] show ?thesis by linarith
qed

text \<open>The rounding of a positive number, with its exponent known.\<close>

lemma r64_pos:
  assumes "0 < q" and "2 powi e \<le> q" and "q < 2 powi (e + 1)"
  shows "r64 q = (let p = max (e - 52) (- 1074);
                      v = of_int (roundEven (q / 2 powi p)) * 2 powi p
                  in if 2 ^ 1024 \<le> v then PosInf else Num v)"
  using assms ilog2_unique[OF assms] by (simp add: r64_def Let_def)

lemma r64_neg:
  assumes "q \<noteq> 0"
  shows "r64 (- q) = (case r64 q of Num v \<Rightarrow> Num (- v) | PosInf \<Rightarrow> NegInf | NegInf \<Rightarrow> PosInf | NaN \<Rightarrow> NaN)"
proof -
  define v :: rat where "v = of_int (roundEven (\<bar>q\<bar> / 2 powi max (ilog2 \<bar>q\<bar> - 52) (- 1074)))
                        * 2 powi max (ilog2 \<bar>q\<bar> - 52) (- 1074)"
  define big where "big = ((2::rat) ^ 1024 \<le> v)"
  have 1: "r64 q = (if big then (if q < 0 then NegInf else PosInf) else Num (if q < 0 then - v else v))"
    using assms unfolding r64_def Let_def v_def big_def by simp
  have 2: "r64 (- q) = (if big then (if 0 < q then NegInf else PosInf) else Num (if 0 < q then - v else v))"
    using assms unfolding r64_def Let_def v_def big_def by simp
  show ?thesis
  proof (cases "q < 0")
    case True
    then show ?thesis unfolding 1 2 by simp
  next
    case False
    with assms have "0 < q" by simp
    then show ?thesis unfolding 1 2 by simp
  qed
qed

lemma r64_nat_cases:
  assumes "0 < n"
  shows "r64 (of_nat n) = PosInf \<or> (\<exists>m. 0 < m \<and> r64 (of_nat n) = Num (of_nat m))"
proof -
  define q :: rat where "q = of_nat n"
  have qpos: "0 < q" and q1: "1 \<le> q" using assms by (simp_all add: q_def)
  define e where "e = ilog2 q"
  note b = ilog2_bounds[OF qpos, folded e_def]
  define p where "p = max (e - 52) (- 1074)"
  define m where "m = roundEven (q / 2 powi p)"
  define v :: rat where "v = of_int m * 2 powi p"
  have r: "r64 q = (if 2 ^ 1024 \<le> v then PosInf else Num v)"
    using r64_pos[OF qpos conjunct1[OF b] conjunct2[OF b]] by (simp add: Let_def p_def m_def v_def)
  have e0: "0 \<le> e"
  proof (rule ccontr)
    assume "\<not> 0 \<le> e"
    then have "e + 1 \<le> 0" by simp
    then have "(2::rat) powi (e + 1) \<le> 2 powi 0" by (rule pow2_mono)
    with b q1 show False by simp
  qed
  have "\<exists>k. 0 < k \<and> v = of_nat k"
  proof (cases "0 \<le> p")
    case True
    have "1 \<le> q / 2 powi p"
    proof -
      have "(2::rat) powi p \<le> 2 powi e" by (rule pow2_mono) (simp add: p_def e0)
      with b have "2 powi p \<le> q" by simp
      then show ?thesis using pow2_pos[of p] by (simp add: pos_le_divide_eq)
    qed
    then have "1 \<le> m" using roundEven_ge[of 1 "q / 2 powi p"] by (simp add: m_def)
    then have "v = of_nat (nat m * 2 ^ nat p)" "0 < nat m * 2 ^ nat p"
      using True by (simp_all add: v_def pow2_nat)
    then show ?thesis by blast
  next
    case False
    then have pn: "p < 0" by simp
    have "q / 2 powi p = of_int (int n * 2 ^ nat (- p))"
      using pn by (simp add: q_def power_int_def field_simps)
    then have "m = int n * 2 ^ nat (- p)"
      unfolding m_def by (simp only: roundEven_of_int)
    then have "v = q"
      using pn by (simp add: v_def q_def power_int_def field_simps)
    then show ?thesis using assms by (auto simp: q_def)
  qed
  with r show ?thesis by (auto simp: q_def)
qed

lemma r64_int_cases:
  "(0 < k \<longrightarrow> r64 (of_int k) = PosInf \<or> (\<exists>m. 0 < m \<and> r64 (of_int k) = Num (of_int m)))
   \<and> (k < 0 \<longrightarrow> r64 (of_int k) = NegInf \<or> (\<exists>m. m < 0 \<and> r64 (of_int k) = Num (of_int m)))
   \<and> (k = 0 \<longrightarrow> r64 (of_int k) = Num 0)"
proof (intro conjI impI)
  assume "0 < k"
  then have e: "rat_of_nat (nat k) = of_int k" and p: "0 < nat k" by simp_all
  from r64_nat_cases[OF p]
  show "r64 (of_int k) = PosInf \<or> (\<exists>m. 0 < m \<and> r64 (of_int k) = Num (of_int m))"
    unfolding e
  proof
    assume "r64 (of_int k) = PosInf"
    then show ?thesis by (rule disjI1)
  next
    assume "\<exists>m>0. r64 (of_int k) = Num (rat_of_nat m)"
    then obtain m where m: "0 < m" "r64 (of_int k) = Num (rat_of_nat m)" by blast
    have "rat_of_nat m = of_int (int m)" by simp
    with m have "0 < int m \<and> r64 (of_int k) = Num (of_int (int m))" by (simp only: of_nat_0_less_iff simp_thms)
    then show ?thesis by blast
  qed
next
  assume "k < 0"
  then have e: "rat_of_nat (nat (- k)) = of_int (- k)" and p: "0 < nat (- k)" by simp_all
  have nz: "rat_of_int (- k) \<noteq> 0" using \<open>k < 0\<close> by simp
  have n: "r64 (of_int k) = (case r64 (of_int (- k)) of Num v \<Rightarrow> Num (- v) | PosInf \<Rightarrow> NegInf
             | NegInf \<Rightarrow> PosInf | NaN \<Rightarrow> NaN)"
    using r64_neg[OF nz] by simp
  from r64_nat_cases[OF p]
  show "r64 (of_int k) = NegInf \<or> (\<exists>m. m < 0 \<and> r64 (of_int k) = Num (of_int m))"
    unfolding e
  proof
    assume "r64 (of_int (- k)) = PosInf"
    then show ?thesis unfolding n by simp
  next
    assume "\<exists>m>0. r64 (of_int (- k)) = Num (rat_of_nat m)"
    then obtain m where m: "0 < m" "r64 (of_int (- k)) = Num (rat_of_nat m)" by blast
    have "r64 (of_int k) = Num (of_int (- int m))" unfolding n m(2) by simp
    moreover have "- int m < 0" using m(1) by simp
    ultimately show ?thesis by blast
  qed
next
  assume "k = 0" then show "r64 (of_int k) = Num 0" by (simp add: r64_def)
qed

lemma r64_nat_exact:
  assumes "n \<le> 2 ^ 53"
  shows "r64 (of_nat n) = Num (of_nat n)"
proof (cases "n = 0")
  case True
  then show ?thesis by (simp add: r64_def)
next
  case False
  define q :: rat where "q = of_nat n"
  have qpos: "0 < q" and q1: "1 \<le> q"
    using False by (simp_all add: q_def)
  have qle: "q \<le> 2 ^ 53"
  proof -
    from assms have "rat_of_nat n \<le> of_nat (2 ^ 53)" by (simp only: of_nat_le_iff)
    then show ?thesis by (simp add: q_def)
  qed
  define e where "e = ilog2 q"
  note b = ilog2_bounds[OF qpos, folded e_def]
  define p where "p = max (e - 52) (- 1074)"
  define m where "m = roundEven (q / 2 powi p)"
  define v :: rat where "v = of_int m * 2 powi p"
  have r: "r64 q = (if 2 ^ 1024 \<le> v then PosInf else Num v)"
    using r64_pos[OF qpos conjunct1[OF b] conjunct2[OF b]] by (simp add: Let_def p_def m_def v_def)
  have e0: "0 \<le> e"
  proof (rule ccontr)
    assume "\<not> 0 \<le> e"
    then have "e + 1 \<le> 0" by simp
    then have "(2::rat) powi (e + 1) \<le> 2 powi 0" by (rule pow2_mono)
    with b q1 show False by simp
  qed
  have e53: "e \<le> 53"
  proof (rule ccontr)
    assume "\<not> e \<le> 53"
    then have "53 < e" by simp
    then have "(2::rat) powi 53 < 2 powi e" by (rule pow2_strict_mono)
    with b qle show False by simp
  qed
  have pe: "p = e - 52" using e0 by (simp add: p_def)
  have vq: "v = q"
  proof (cases "e = 53")
    case True
    then have "(2::rat) ^ 53 \<le> q" using b by simp
    with qle have q53: "q = 2 ^ 53" by simp
    have "q / 2 powi p = of_int (2 ^ 52)"
      using True by (simp add: pe q53)
    then have "m = 2 ^ 52" unfolding m_def by (simp only: roundEven_of_int)
    then show ?thesis using True by (simp add: v_def pe q53)
  next
    case False
    with e53 have pn: "p \<le> 0" by (simp add: pe)
    have "q / 2 powi p = of_int (int n * 2 ^ nat (- p))"
      using pn by (simp add: q_def power_int_def field_simps)
    then have "m = int n * 2 ^ nat (- p)"
      unfolding m_def by (simp only: roundEven_of_int)
    then show ?thesis
      using pn by (simp add: v_def q_def power_int_def field_simps)
  qed
  have "\<not> (2::rat) ^ 1024 \<le> q"
  proof -
    have "(2::rat) ^ 53 < 2 ^ 1024" by (rule power_strict_increasing) simp_all
    with qle show ?thesis by simp
  qed
  with r vq show ?thesis by (simp add: q_def)
qed

lemma r64_numeral: "numeral w \<le> (2::nat) ^ 53 \<Longrightarrow> r64 (numeral w) = Num (numeral w)"
  using r64_nat_exact[of "numeral w"] by simp

lemma r64_one: "r64 1 = Num 1"
  using r64_nat_exact[of 1] by simp

lemma parse_1000: "parseInt10 (replaceDots ''1.000'') = Num 1000"
  by (simp add: parseInt10_def replaceDots_def splitSign_def isWhiteSpace_def isDigit_def
        digits_val_def digit_val_def r64_numeral)

lemma parse_0: "parseInt10 (replaceDots ''0.000'') = Num 0"
  by (simp add: parseInt10_def replaceDots_def splitSign_def isWhiteSpace_def isDigit_def
        digits_val_def digit_val_def r64_def)

lemma parse_abc: "parseInt10 (replaceDots ''abc'') = NaN"
  by (simp add: parseInt10_def replaceDots_def splitSign_def isWhiteSpace_def isDigit_def)

section \<open>Identifiers and names on the sample data\<close>

lemma toString_5: "toString 5 = ''5''"
  by (simp add: toString_def nat_digits.simps digit_char_def)

lemma toString_7: "toString 7 = ''7''"
  by (simp add: toString_def nat_digits.simps digit_char_def)

lemma toString_9: "toString 9 = ''9''"
  by (simp add: toString_def nat_digits.simps digit_char_def)

lemma toString_11: "toString 11 = ''11''"
  by (simp add: toString_def nat_digits.simps digit_char_def)

lemma toString_minus2: "toString (- 2) = ''-2''"
  by (simp add: toString_def nat_digits.simps digit_char_def)

lemma sample_run_ids: "run_skill_ids sample_run = [5, - 1]"
  by (simp add: run_skill_ids_def gate_skill_ids_def player_skill_ids_def gatesOf_def playersOf_def
        skillsOf_def sample_run_def sample_gate_def sample_player_def fireball_def basic_attack_def)

lemma other_run_ids: "run_skill_ids other_run = [- 2]"
  by (simp add: run_skill_ids_def gate_skill_ids_def player_skill_ids_def gatesOf_def playersOf_def
        skillsOf_def other_run_def other_attack_def)

lemma other_allSkillIds: "allSkillIds other_run = []"
  by (simp add: allSkillIds_def other_run_def other_attack_def collectGate_def collectPlayer_def
        collectSkill_def)

lemma analysePlayer_calls:
  "snd (analysePlayer t pl lookup) = [] \<or>
   (\<exists>sks. p_skills pl = Some sks \<and> snd (analysePlayer t pl lookup) = fst (resolvePlayer lookup (uniqueSkillIds sks)))"
  by (auto simp: analysePlayer_def split: option.splits prod.splits sum.splits)

lemma analysePlayer_calls_nonneg: "i \<in> set (snd (analysePlayer t pl lookup)) \<Longrightarrow> 0 \<le> i"
  using analysePlayer_calls [of t pl lookup] by (auto simp: resolvePlayer_calls)

lemma handlerBody_calls_nonneg: "i \<in> set (snd (handlerBody a b c rr lookup)) \<Longrightarrow> 0 \<le> i"
  by (auto simp: handlerBody_def Let_def split: run_outcome.splits option.splits if_splits
        dest: analysePlayer_calls_nonneg)

lemma handler_calls_nonneg: "i \<in> set (snd (handler a b c rr lookup)) \<Longrightarrow> 0 \<le> i"
  by (auto simp: handler_def split: option.splits if_splits dest: handlerBody_calls_nonneg)

lemma status_service_7: "status_service 7 = NoResponse"
  by (simp add: status_service_def)

section \<open>The claims about identifiers and names\<close>

text \<open>
  Claim C1, as the code has it.  \<open>R\<close> is the resolver of either handler, \<open>X\<close> an
  identifier given to it that is sent to the lookup service.  The dictionary has the key
  of \<open>X\<close>, whatever the service does.  Its name is \<^verbatim>\<open>"Error Skill (X)"\<close> when no
  response arrives, when the body of the response does not parse, and when the body is
  \<^verbatim>\<open>null\<close>; it is \<^verbatim>\<open>"Unknown Skill (X)"\<close> when the body parses and lacks the
  field or has it empty; it is the field otherwise.  The status of the response plays no
  part: \<open>ok\<close> is arbitrary in each case, and two responses with the same body give the
  same name.  The entry of \<open>X\<close> does not depend on the answers to the other
  identifiers, and the full-data handler returns its data whatever the service does.
\<close>

theorem name_resolver_C1:
  assumes "X \<in> set ids" and "0 \<le> X" and "R = resolveAll \<or> R = resolvePlayer"
  shows "snd (R (res_json \<circ> service) ids) (toString X) \<noteq> None
    \<and> (service X = NoResponse \<or> service X = Response ok None \<longrightarrow>
         snd (R (res_json \<circ> service) ids) (toString X) = Some (''Error Skill ('' @ toString X @ '')''))
    \<and> (service X = Response ok (Some JsonNull) \<longrightarrow>
         snd (R (res_json \<circ> service) ids) (toString X) = Some (''Error Skill ('' @ toString X @ '')''))
    \<and> (service X = Response ok (Some (JsonValue None))
          \<or> service X = Response ok (Some (JsonValue (Some []))) \<longrightarrow>
         snd (R (res_json \<circ> service) ids) (toString X) = Some (''Unknown Skill ('' @ toString X @ '')''))
    \<and> (service X = Response ok (Some (JsonValue (Some txt))) \<and> txt \<noteq> [] \<longrightarrow>
         snd (R (res_json \<circ> service) ids) (toString X) = Some txt)
    \<and> (service' X = service X
          \<or> (\<exists>body. service X = Response ok body \<and> service' X = Response ok' body) \<longrightarrow>
         snd (R (res_json \<circ> service') ids) (toString X)
           = snd (R (res_json \<circ> service) ids) (toString X))
    \<and> (\<exists>d calls. handleApiRequest ident (RunOk rd) (res_json \<circ> service) = (Inr d, calls))"
proof -
  have ne: "X \<noteq> - 1" using assms by simp
  have all: "snd (resolveAll l ids) (toString X) = Some (snd (fetchSkillName l X))" for l
    using assms ne by (simp add: resolveAll_key)
  have pl: "snd (resolvePlayer l ids) (toString X) = Some (snd (fetchSkillName l X))" for l
    using assms by (simp add: resolvePlayer_key)
  have R: "snd (R l ids) (toString X) = Some (snd (fetchSkillName l X))" for l
    using assms(3) all pl by auto
  have c1: "snd (R (res_json \<circ> service) ids) (toString X) \<noteq> None"
    by (simp add: R)
  have c2: "service X = NoResponse \<or> service X = Response ok None \<longrightarrow>
         snd (R (res_json \<circ> service) ids) (toString X) = Some (''Error Skill ('' @ toString X @ '')'')"
    by (auto simp: R fetchSkillName_def errorSkill_def)
  have c3: "service X = Response ok (Some JsonNull) \<longrightarrow>
         snd (R (res_json \<circ> service) ids) (toString X) = Some (''Error Skill ('' @ toString X @ '')'')"
    by (simp add: R fetchSkillName_def errorSkill_def)
  have c4: "service X = Response ok (Some (JsonValue None))
          \<or> service X = Response ok (Some (JsonValue (Some []))) \<longrightarrow>
         snd (R (res_json \<circ> service) ids) (toString X) = Some (''Unknown Skill ('' @ toString X @ '')'')"
    by (auto simp: R fetchSkillName_def unknownSkill_def)
  have c5: "service X = Response ok (Some (JsonValue (Some txt))) \<and> txt \<noteq> [] \<longrightarrow>
         snd (R (res_json \<circ> service) ids) (toString X) = Some txt"
    by (simp add: R fetchSkillName_def)
  have c6: "service' X = service X
          \<or> (\<exists>body. service X = Response ok body \<and> service' X = Response ok' body) \<longrightarrow>
         snd (R (res_json \<circ> service') ids) (toString X)
           = snd (R (res_json \<circ> service) ids) (toString X)"
  proof
    assume "service' X = service X
          \<or> (\<exists>body. service X = Response ok body \<and> service' X = Response ok' body)"
    then have "res_json (service' X) = res_json (service X)"
    proof
      assume "service' X = service X" then show ?thesis by simp
    next
      assume "\<exists>body. service X = Response ok body \<and> service' X = Response ok' body"
      then obtain body where "service X = Response ok body" "service' X = Response ok' body"
        by blast
      then show ?thesis by (cases body) simp_all
    qed
    then show "snd (R (res_json \<circ> service') ids) (toString X)
           = snd (R (res_json \<circ> service) ids) (toString X)"
      by (simp add: R fetchSkillName_def)
  qed
  have c7: "\<exists>d calls. handleApiRequest ident (RunOk rd) (res_json \<circ> service) = (Inr d, calls)"
    by (simp add: handleApiRequest_ok)
  from c1 c2 c3 c4 c5 c6 c7 show ?thesis by (intro conjI)
qed

text \<open>Identifier 7, whose lookup gets no response, among 5, 7 and 9.\<close>

theorem name_resolver_C1_witness:
  "(7::int) \<in> set [5, 7, 9] \<and> (0::int) \<le> 7 \<and> status_service 7 = NoResponse
   \<and> snd (resolveAll (res_json \<circ> status_service) [5, 7, 9]) ''7'' = Some ''Error Skill (7)''"
proof -
  have a: "(7::int) \<in> set [5, 7, 9]" and b: "(0::int) \<le> 7" by simp_all
  note t = name_resolver_C1 [OF a b disjI1 [OF refl], of status_service True "''Fireball''"
      status_service True "''1''" sample_run]
  from t have "status_service 7 = NoResponse \<or> status_service 7 = Response True None \<longrightarrow>
         snd (resolveAll (res_json \<circ> status_service) [5, 7, 9]) (toString 7)
           = Some (''Error Skill ('' @ toString 7 @ '')'')"
    by (rule conjunct1 [OF conjunct2])
  with status_service_7
  have "snd (resolveAll (res_json \<circ> status_service) [5, 7, 9]) (toString 7)
      = Some (''Error Skill ('' @ toString 7 @ '')'')"
    by simp
  then have "snd (resolveAll (res_json \<circ> status_service) [5, 7, 9]) ''7'' = Some ''Error Skill (7)''"
    by (simp add: toString_7)
  with a b status_service_7 show ?thesis by (intro conjI)
qed

text \<open>
  A response with a non-success status whose body has the field gives the name itself,
  and one whose body lacks the field gives \<^verbatim>\<open>"Unknown Skill (9)"\<close>, not an
  \<^verbatim>\<open>"Error Skill"\<close> name; a response with a success status and the body
  \<^verbatim>\<open>null\<close>, which has no field, gives \<^verbatim>\<open>"Error Skill (11)"\<close>.
\<close>

theorem name_resolver_C1_counterexample:
  "status_service 5 = Response False (Some (JsonValue (Some ''Fireball'')))
   \<and> snd (resolveAll (res_json \<circ> status_service) [5, 9, 11]) ''5'' = Some ''Fireball''
   \<and> status_service 9 = Response False (Some (JsonValue None))
   \<and> snd (resolveAll (res_json \<circ> status_service) [5, 9, 11]) ''9'' = Some ''Unknown Skill (9)''
   \<and> status_service 11 = Response True (Some JsonNull)
   \<and> snd (resolveAll (res_json \<circ> status_service) [5, 9, 11]) ''11'' = Some ''Error Skill (11)''"
proof -
  have s5: "status_service 5 = Response False (Some (JsonValue (Some ''Fireball'')))"
    and s9: "status_service 9 = Response False (Some (JsonValue None))"
    and s11: "status_service 11 = Response True (Some JsonNull)"
    by (simp_all add: status_service_def)
  have e5: "snd (resolveAll (res_json \<circ> status_service) [5, 9, 11]) ''5'' = Some ''Fireball''"
    using resolveAll_key [of "res_json \<circ> status_service" "[5, 9, 11]" 5]
    by (simp add: toString_5 fetchSkillName_def s5)
  have e9: "snd (resolveAll (res_json \<circ> status_service) [5, 9, 11]) ''9'' = Some ''Unknown Skill (9)''"
    using resolveAll_key [of "res_json \<circ> status_service" "[5, 9, 11]" 9]
    by (simp add: toString_9 fetchSkillName_def s9 unknownSkill_def)
  have e11: "snd (resolveAll (res_json \<circ> status_service) [5, 9, 11]) ''11'' = Some ''Error Skill (11)''"
    using resolveAll_key [of "res_json \<circ> status_service" "[5, 9, 11]" 11]
    by (simp add: toString_11 fetchSkillName_def s11 errorSkill_def)
  from s5 e5 s9 e9 s11 e11 show ?thesis by (intro conjI)
qed

text \<open>
  Claim C2, as the code has it.  The collector of the full-data handlers returns the
  identifiers of the run that are greater than zero, each once, whatever collections the
  run lacks, and the handler does not fail on such a run.  The collector of the
  single-player handler returns every identifier of the player's skill records, each
  once, whatever its sign.
\<close>

theorem identifier_collector_C2:
  "distinct (allSkillIds rd)
   \<and> (\<forall>i \<in> set (allSkillIds rd). 0 < i)
   \<and> set (allSkillIds rd) = {i \<in> set (run_skill_ids rd). 0 < i}
   \<and> (\<exists>d calls. handleApiRequest ident (RunOk rd) lookup = (Inr d, calls))
   \<and> distinct (uniqueSkillIds sks)
   \<and> set (uniqueSkillIds sks) = s_id ` set sks"
  by (simp add: allSkillIds_distinct allSkillIds_set uniqueSkillIds_distinct uniqueSkillIds_set
        handleApiRequest_ok)

text \<open>The collectors on the sample run and the sample player.\<close>

theorem identifier_collector_C2_witness:
  "allSkillIds sample_run = [5] \<and> distinct (allSkillIds sample_run)
   \<and> set (allSkillIds sample_run) = {i \<in> set (run_skill_ids sample_run). 0 < i}
   \<and> uniqueSkillIds [fireball, basic_attack] = [5, - 1]
   \<and> distinct (uniqueSkillIds [fireball, basic_attack])"
  using identifier_collector_C2 [of sample_run "''1''" sample_lookup "[fireball, basic_attack]"]
  by (simp add: sample_allSkillIds sample_uniqueSkillIds)

text \<open>
  The single-player collector keeps the identifier \<open>-1\<close> of a basic attack, which is
  not greater than zero.
\<close>

theorem identifier_collector_C2_counterexample:
  "uniqueSkillIds [basic_attack] = [- 1] \<and> \<not> (0::int) < - 1"
  by (simp add: uniqueSkillIds_def new_Set_def set_add_def basic_attack_def)

text \<open>
  Claim C3, as the code has it.  The dictionary of the full-data handlers maps the key
  \<^verbatim>\<open>"-1"\<close> to \<^verbatim>\<open>"Basic Attack"\<close> for every list of identifiers, and no lookup is
  issued for \<open>-1\<close>.  The dictionary of the single-player handler has the key exactly
  when \<open>-1\<close> is among the player's skill identifiers, with that same name, and there
  too no lookup is issued for \<open>-1\<close>.
\<close>

theorem basic_attack_entry_C3:
  "snd (resolveAll lookup ids) ''-1'' = Some ''Basic Attack''
   \<and> (\<forall>d calls. handleApiRequest ident (RunOk rd) lookup = (Inr d, calls)
         \<longrightarrow> skillDictionary d ''-1'' = Some ''Basic Attack'' \<and> - 1 \<notin> set calls)
   \<and> (\<forall>d calls. handler_full (Some ident) (RunOk rd) lookup = (FullOk d, calls)
         \<longrightarrow> skillDictionary d ''-1'' = Some ''Basic Attack'' \<and> - 1 \<notin> set calls)
   \<and> snd (resolvePlayer lookup (uniqueSkillIds sks)) ''-1''
        = (if - 1 \<in> s_id ` set sks then Some ''Basic Attack'' else None)
   \<and> - 1 \<notin> set (fst (resolvePlayer lookup (uniqueSkillIds sks)))"
proof -
  have a: "snd (resolveAll lookup ids) ''-1'' = Some ''Basic Attack''" for ids
    using resolveAll_key [of lookup ids "- 1"] by (simp add: toString_minus1)
  have b: "- 1 \<notin> set (fst (resolveAll lookup (allSkillIds rd)))"
    by (simp add: resolveAll_calls allSkillIds_set)
  have c: "snd (resolvePlayer lookup (uniqueSkillIds sks)) ''-1''
        = (if - 1 \<in> s_id ` set sks then Some ''Basic Attack'' else None)"
    using resolvePlayer_key [of lookup "uniqueSkillIds sks" "- 1"]
    by (simp add: toString_minus1 uniqueSkillIds_set)
  have d: "- 1 \<notin> set (fst (resolvePlayer lookup (uniqueSkillIds sks)))"
    by (simp add: resolvePlayer_calls)
  have e: "handler_full (Some ident) (RunOk rd) lookup = (FullOk d, calls)
     \<Longrightarrow> skillDictionary d ''-1'' = Some ''Basic Attack'' \<and> - 1 \<notin> set calls" for d calls
    using a b by (cases "ident = []") (auto simp: handler_full_def handleApiRequest_ok)
  show ?thesis using a b c d e by (auto simp: handleApiRequest_ok)
qed

text \<open>The entry for \<open>-1\<close> on the sample run.\<close>

theorem basic_attack_entry_C3_witness:
  "handleApiRequest ''1'' (RunOk sample_run) sample_lookup
     = (Inr \<lparr>runData = sample_run, skillDictionary = snd (resolveAll sample_lookup [5])\<rparr>, [5])
   \<and> snd (resolveAll sample_lookup [5]) ''-1'' = Some ''Basic Attack''
   \<and> (- 1::int) \<notin> set [5]
   \<and> handler_full (Some ''1'') (RunOk sample_run) sample_lookup
     = (FullOk \<lparr>runData = sample_run, skillDictionary = snd (resolveAll sample_lookup [5])\<rparr>, [5])
   \<and> snd (resolvePlayer sample_lookup (uniqueSkillIds [fireball, basic_attack])) ''-1''
     = Some ''Basic Attack''"
  using basic_attack_entry_C3 [of sample_lookup "[5]" "''1''" sample_run "[fireball, basic_attack]"]
  by (simp add: handleApiRequest_ok handler_full_ok sample_allSkillIds resolveAll_calls
        fireball_def basic_attack_def)

text \<open>
  For a player whose only skill is number 5 the single-player dictionary has no key
  \<^verbatim>\<open>"-1"\<close>.
\<close>

theorem basic_attack_entry_C3_counterexample:
  "snd (resolvePlayer sample_lookup (uniqueSkillIds [fireball])) ''-1'' = None"
  using resolvePlayer_key [of sample_lookup "uniqueSkillIds [fireball]" "- 1"]
  by (simp add: toString_minus1 uniqueSkillIds_set fireball_def)

text \<open>
  Claim C8, as the code has it.  The keys of the full-data dictionary are the identifiers
  of the run that are greater than zero, and \<open>-1\<close>; the keys of the single-player
  dictionary are the identifiers of the player's skill records.
\<close>

theorem name_mapping_keys_C8:
  "dom (snd (resolveAll lookup (allSkillIds rd)))
     = toString ` ({i \<in> set (run_skill_ids rd). 0 < i} \<union> {- 1})
   \<and> (\<forall>i \<in> set (run_skill_ids rd). 0 < i \<longrightarrow>
         snd (resolveAll lookup (allSkillIds rd)) (toString i) \<noteq> None)
   \<and> snd (resolveAll lookup (allSkillIds rd)) (toString (- 1)) \<noteq> None
   \<and> dom (snd (resolvePlayer lookup (uniqueSkillIds sks))) = toString ` s_id ` set sks
   \<and> (\<forall>sk \<in> set sks. snd (resolvePlayer lookup (uniqueSkillIds sks)) (toString (s_id sk)) \<noteq> None)"
  by (auto simp: resolveAll_dom resolveAll_key resolvePlayer_dom resolvePlayer_key
        allSkillIds_set uniqueSkillIds_set)

text \<open>The keys on the sample run.\<close>

theorem name_mapping_keys_C8_witness:
  "(5::int) \<in> set (run_skill_ids sample_run) \<and> (0::int) < 5
   \<and> snd (resolveAll sample_lookup (allSkillIds sample_run)) (toString 5) \<noteq> None
   \<and> snd (resolveAll sample_lookup (allSkillIds sample_run)) (toString (- 1)) \<noteq> None
   \<and> basic_attack \<in> set [fireball, basic_attack]
   \<and> snd (resolvePlayer sample_lookup (uniqueSkillIds [fireball, basic_attack]))
        (toString (s_id basic_attack)) \<noteq> None"
  using name_mapping_keys_C8 [of sample_lookup sample_run "[fireball, basic_attack]"]
  by (simp add: sample_run_ids)

text \<open>
  A run whose skill record has identifier \<open>-2\<close>: the full-data dictionary has no key
  \<^verbatim>\<open>"-2"\<close>.
\<close>

theorem name_mapping_keys_C8_counterexample:
  "run_skill_ids other_run = [- 2]
   \<and> handleApiRequest ''1'' (RunOk other_run) sample_lookup
       = (Inr \<lparr>runData = other_run, skillDictionary = snd (resolveAll sample_lookup [])\<rparr>, [])
   \<and> snd (resolveAll sample_lookup []) ''-2'' = None"
  using resolveAll_key [of sample_lookup "[]" "- 2"]
  by (simp add: other_run_ids handleApiRequest_ok toString_minus2 other_allSkillIds resolveAll_calls)

text \<open>
  Claim C9.  In the single-player handler every negative identifier of the player's
  skill records is mapped to \<^verbatim>\<open>"Basic Attack"\<close>, and every lookup issued, by the
  resolver and by the handler as a whole, is for an identifier that is not negative.
\<close>

theorem negative_ids_C9:
  "(\<forall>sk \<in> set sks. s_id sk < 0 \<longrightarrow>
      snd (resolvePlayer lookup (uniqueSkillIds sks)) (toString (s_id sk)) = Some ''Basic Attack'')
   \<and> (\<forall>i \<in> set (fst (resolvePlayer lookup (uniqueSkillIds sks))). 0 \<le> i)
   \<and> (\<forall>i \<in> set (snd (handler ident player_id gate_id runResponse lookup)). 0 \<le> i)"
  by (auto simp: resolvePlayer_key resolvePlayer_calls uniqueSkillIds_set dest: handler_calls_nonneg)

text \<open>A player with skill 5 and with the negative identifier \<open>-2\<close>.\<close>

theorem negative_ids_C9_witness:
  "other_attack \<in> set [fireball, other_attack] \<and> s_id other_attack < 0
   \<and> snd (resolvePlayer sample_lookup (uniqueSkillIds [fireball, other_attack])) ''-2''
        = Some ''Basic Attack''
   \<and> fst (resolvePlayer sample_lookup (uniqueSkillIds [fireball, other_attack])) = [5]"
  using negative_ids_C9 [of "[fireball, other_attack]" sample_lookup]
  by (simp add: other_attack_def fireball_def toString_minus2 resolvePlayer_calls uniqueSkillIds_def
        new_Set_def set_add_def)

section \<open>The sort\<close>

lemma intnum_r64_int: "intnum (r64 (of_int k))"
  using r64_int_cases[of k] by (cases "0 < k"; cases "k < 0") (auto simp: intnum_def)

lemma parseInt10_intnum: "parseInt10 s \<noteq> NaN \<Longrightarrow> intnum (parseInt10 s)"
proof -
  assume ne: "parseInt10 s \<noteq> NaN"
  have a: "intnum (r64 (- of_nat n))" for n
    using intnum_r64_int[of "- int n"] by simp
  have b: "intnum (r64 (of_nat n))" for n
    using intnum_r64_int[of "int n"] by simp
  show ?thesis
    using ne a b by (auto simp: parseInt10_def Let_def split: prod.splits if_splits)
qed

lemma pos_r64_int: "jlt (Num 0) (r64 (of_int j)) \<longleftrightarrow> 0 < j"
  using r64_int_cases[of j] by (cases "0 < j"; cases "j < 0") auto

lemma compare_intnum:
  assumes "intnum a" and "intnum b"
  shows "jlt (Num 0) (jsub b a) \<longleftrightarrow> jlt a b"
proof (cases a; cases b)
  fix x y assume ab: "a = Num x" "b = Num y"
  with assms have "of_int \<lfloor>x\<rfloor> = x" "of_int \<lfloor>y\<rfloor> = y"
    by (simp_all add: intnum_def)
  then obtain i j where ij: "x = of_int i" "y = of_int j"
    by metis
  show ?thesis using pos_r64_int[of "j - i"] by (simp add: ab ij)
qed (use assms in \<open>simp_all add: intnum_def\<close>)

lemma jge_iff: "intnum a \<Longrightarrow> intnum b \<Longrightarrow> jge a b \<longleftrightarrow> \<not> jlt a b"
  by (cases a; cases b) (simp_all add: intnum_def)

lemma jge_trans: "intnum a \<Longrightarrow> intnum b \<Longrightarrow> intnum c \<Longrightarrow> jge a b \<Longrightarrow> jge b c \<Longrightarrow> jge a c"
  by (cases a; cases b; cases c) (simp_all add: intnum_def)

lemma jlt_imp_jge: "intnum a \<Longrightarrow> intnum b \<Longrightarrow> jlt a b \<Longrightarrow> jge b a"
  by (cases a; cases b) (simp_all add: intnum_def)

lemma set_insertRow: "set (insertRow x ys) = insert x (set ys)"
  by (induction ys) auto

lemma mset_insertRow: "mset (insertRow x ys) = add_mset x (mset ys)"
  by (induction ys) auto

lemma mset_sortRows: "mset (sortRows rows) = mset rows"
  by (induction rows) (simp_all add: sortRows_def mset_insertRow)

lemma set_sortRows: "set (sortRows rows) = set rows"
  using mset_sortRows by (metis set_mset_mset)

lemma sorted_insertRow:
  assumes "intnum (damage x)" and "\<forall>y \<in> set ys. intnum (damage y)"
    and "sorted_wrt (\<lambda>a b. jge (damage a) (damage b)) ys"
  shows "sorted_wrt (\<lambda>a b. jge (damage a) (damage b)) (insertRow x ys)"
  using assms
proof (induction ys)
  case Nil
  then show ?case by simp
next
  case (Cons y ys)
  show ?case
  proof (cases "jlt (Num 0) (compareFn x y)")
    case True
    then have "jlt (damage x) (damage y)"
      using Cons.prems by (simp add: compareFn_def compare_intnum)
    then have "jge (damage y) (damage x)"
      using Cons.prems by (simp add: jlt_imp_jge)
    with True Cons show ?thesis by (auto simp: set_insertRow)
  next
    case False
    then have xy: "jge (damage x) (damage y)"
      using Cons.prems by (simp add: compareFn_def compare_intnum jge_iff)
    have "jge (damage x) (damage z)" if "z \<in> set ys" for z
    proof -
      from that Cons.prems have "jge (damage y) (damage z)" "intnum (damage z)" by auto
      with xy Cons.prems show ?thesis by (auto intro: jge_trans)
    qed
    with False xy Cons.prems show ?thesis by auto
  qed
qed

lemma sorted_sortRows:
  "\<forall>r \<in> set rows. intnum (damage r) \<Longrightarrow> sorted_wrt (\<lambda>a b. jge (damage a) (damage b)) (sortRows rows)"
proof (induction rows)
  case Nil
  then show ?case by (simp add: sortRows_def)
next
  case (Cons r rows)
  then have "sorted_wrt (\<lambda>a b. jge (damage a) (damage b)) (insertRow r (sortRows rows))"
    by (intro sorted_insertRow) (auto simp: set_sortRows)
  then show ?case by (simp add: sortRows_def)
qed

lemma compare_equal: "damage x = damage y \<Longrightarrow> \<not> jlt (Num 0) (compareFn x y)"
  by (cases "damage y") (simp_all add: compareFn_def r64_def)

lemma filter_insertRow:
  "filter (\<lambda>r. damage r = d) (insertRow x ys) =
     (if damage x = d then x # filter (\<lambda>r. damage r = d) ys else filter (\<lambda>r. damage r = d) ys)"
  using compare_equal by (induction ys) auto

lemma filter_sortRows: "filter (\<lambda>r. damage r = d) (sortRows rows) = filter (\<lambda>r. damage r = d) rows"
  by (induction rows) (simp_all add: sortRows_def filter_insertRow)

text \<open>A list has one arrangement that is sorted and keeps the order within each damage.\<close>

lemma jge_antisym: "intnum a \<Longrightarrow> intnum b \<Longrightarrow> jge a b \<Longrightarrow> jge b a \<Longrightarrow> a = b"
  by (cases a; cases b) (simp_all add: intnum_def)

lemma stable_sorted_unique:
  assumes "\<forall>r \<in> set xs. intnum (damage r)"
    and "sorted_wrt (\<lambda>a b. jge (damage a) (damage b)) xs"
    and "sorted_wrt (\<lambda>a b. jge (damage a) (damage b)) ys"
    and "\<forall>d. filter (\<lambda>r. damage r = d) ys = filter (\<lambda>r. damage r = d) xs"
  shows "ys = xs"
  using assms
proof (induction xs arbitrary: ys)
  case Nil
  show ?case
  proof (cases ys)
    case (Cons y ys')
    from Nil.prems(4) have "filter (\<lambda>r. damage r = damage y) ys = filter (\<lambda>r. damage r = damage y) []"
      by (rule spec)
    then show ?thesis by (simp add: Cons)
  qed simp
next
  case (Cons x xs')
  note eq = Cons.prems(4) [rule_format]
  have fx: "filter (\<lambda>r. damage r = damage x) ys = x # filter (\<lambda>r. damage r = damage x) xs'"
    using eq [of "damage x"] by simp
  then have "x \<in> set (filter (\<lambda>r. damage r = damage x) ys)" by simp
  then have xin: "x \<in> set ys" by simp
  then obtain y ys' where ys: "ys = y # ys'" by (cases ys) auto
  have "y \<in> set (filter (\<lambda>r. damage r = damage y) ys)" by (simp add: ys)
  then have "y \<in> set (filter (\<lambda>r. damage r = damage y) (x # xs'))" by (simp only: eq)
  then have yin: "y \<in> set (x # xs')" by (simp only: set_filter mem_Collect_eq)
  have xy: "x = y"
  proof (cases "damage x = damage y")
    case True
    with fx show ?thesis by (simp add: ys)
  next
    case False
    with yin have "y \<in> set xs'" by auto
    with Cons.prems(2) have 1: "jge (damage x) (damage y)" by simp
    from False xin have "x \<in> set ys'" by (auto simp: ys)
    with Cons.prems(3) have 2: "jge (damage y) (damage x)" by (simp add: ys)
    from Cons.prems(1) yin have "intnum (damage x)" "intnum (damage y)" by auto
    with 1 2 have "damage x = damage y" by (auto intro: jge_antisym)
    with False show ?thesis by simp
  qed
  have "ys' = xs'"
  proof (rule Cons.IH)
    show "\<forall>r \<in> set xs'. intnum (damage r)" using Cons.prems(1) by simp
    show "sorted_wrt (\<lambda>a b. jge (damage a) (damage b)) xs'" using Cons.prems(2) by simp
    show "sorted_wrt (\<lambda>a b. jge (damage a) (damage b)) ys'" using Cons.prems(3) by (simp add: ys)
    show "\<forall>d. filter (\<lambda>r. damage r = d) ys' = filter (\<lambda>r. damage r = d) xs'"
    proof
      fix d
      from eq [of d] have "filter (\<lambda>r. damage r = d) (y # ys') = filter (\<lambda>r. damage r = d) (x # xs')"
        by (simp only: ys)
      then show "filter (\<lambda>r. damage r = d) ys' = filter (\<lambda>r. damage r = d) xs'"
        by (simp add: xy split: if_splits)
    qed
  qed
  with xy ys show ?case by simp
qed

section \<open>The aggregation\<close>

lemma cleanSkill_present:
  "present sk \<Longrightarrow> \<exists>r. cleanSkill t dict sk = Inr r \<and> damage r = parseInt10 (replaceDots (the (s_damage sk)))"
  by (auto simp: present_def cleanSkill_def Let_def)

lemma cleanSkill_absent:
  "\<not> present sk \<Longrightarrow> cleanSkill t dict sk =
     (if s_damage sk = None then Inl (TypeError ''replace'') else Inl (TypeError ''1''))"
  by (auto simp: present_def cleanSkill_def Let_def)

lemma mapSkills_present:
  "list_all present sks \<Longrightarrow>
     mapSkills t dict sks = Inr (map (\<lambda>sk. projr (cleanSkill t dict sk)) sks)"
proof (induction sks)
  case Nil
  then show ?case by simp
next
  case (Cons sk sks)
  then obtain r where "cleanSkill t dict sk = Inr r" using cleanSkill_present[of sk t dict] by auto
  with Cons show ?case by simp
qed

lemma mapSkills_absent:
  "\<not> list_all present sks \<Longrightarrow>
     mapSkills t dict sks = Inl (TypeError ''replace'') \<or> mapSkills t dict sks = Inl (TypeError ''1'')"
proof (induction sks)
  case Nil
  then show ?case by simp
next
  case (Cons sk sks)
  show ?case
  proof (cases "present sk")
    case True
    then obtain r where "cleanSkill t dict sk = Inr r" using cleanSkill_present[of sk t dict] by auto
    with Cons True show ?thesis by auto
  next
    case False
    then show ?thesis by (simp add: cleanSkill_absent)
  qed
qed

lemma present_renumber: "present (sk\<lparr>s_id := i\<rparr>) = present sk"
  by (simp add: present_def)

lemma mapSkills_renumber:
  "\<not> list_all present sks \<Longrightarrow>
     mapSkills t' dict' (map (\<lambda>sk. sk\<lparr>s_id := f (s_id sk)\<rparr>) sks) = mapSkills t dict sks"
proof (induction sks)
  case Nil
  then show ?case by simp
next
  case (Cons sk sks)
  show ?case
  proof (cases "present sk")
    case True
    then obtain r where r: "cleanSkill t dict sk = Inr r" using cleanSkill_present[of sk t dict] by auto
    from True have "present (sk\<lparr>s_id := f (s_id sk)\<rparr>)" by (simp add: present_renumber)
    then obtain r' where r': "cleanSkill t' dict' (sk\<lparr>s_id := f (s_id sk)\<rparr>) = Inr r'"
      using cleanSkill_present[of "sk\<lparr>s_id := f (s_id sk)\<rparr>" t' dict'] by auto
    from Cons True have "mapSkills t' dict' (map (\<lambda>sk. sk\<lparr>s_id := f (s_id sk)\<rparr>) sks) = mapSkills t dict sks"
      by simp
    moreover from Cons.prems True have "\<not> list_all present sks" by simp
    then have "isl (mapSkills t dict sks)" using mapSkills_absent[of sks t dict] by auto
    ultimately show ?thesis using r r' by (auto split: sum.splits)
  next
    case False
    then have "\<not> present (sk\<lparr>s_id := f (s_id sk)\<rparr>)" by (simp add: present_renumber)
    with False show ?thesis by (simp add: cleanSkill_absent)
  qed
qed

section \<open>Values on the sample data\<close>

lemma floor_rat_numeral: "\<lfloor>numeral a / numeral b :: rat\<rfloor> = numeral a div numeral b"
  by (metis floor_divide_of_int_eq of_int_numeral)

lemma r64_fifth: "r64 (1 / 5) = Num (7205759403792794 / 2 ^ 55)"
proof -
  have "r64 (1 / 5) = (let p = max (- 3 - 52) (- 1074);
                      v = of_int (roundEven ((1 / 5) / 2 powi p)) * 2 powi p
                  in if 2 ^ 1024 \<le> v then PosInf else Num v)"
    by (rule r64_pos) (simp_all add: power_int_def power_divide)
  also have "\<dots> = Num (7205759403792794 / 2 ^ 55)"
    by (simp add: Let_def power_int_def roundEven_def power_divide floor_rat_numeral)
  finally show ?thesis .
qed

lemma r64_fifth_100: "r64 (7205759403792794 / 2 ^ 55 * 100) = Num 20"
proof -
  have "r64 (7205759403792794 / 2 ^ 55 * 100) = (let p = max (4 - 52) (- 1074);
                      v = of_int (roundEven ((7205759403792794 / 2 ^ 55 * 100) / 2 powi p)) * 2 powi p
                  in if 2 ^ 1024 \<le> v then PosInf else Num v)"
    by (rule r64_pos) (simp_all add: power_int_def power_divide)
  also have "\<dots> = Num 20"
    by (simp add: Let_def power_int_def roundEven_def power_divide floor_rat_numeral)
  finally show ?thesis .
qed

lemma toFixed_100: "parseFloat_toFixed1 (Num 100) = Num 100"
  by (simp add: floor_rat_numeral r64_numeral)

lemma toFixed_20: "parseFloat_toFixed1 (Num 20) = Num 20"
  by (simp add: floor_rat_numeral r64_numeral)

lemma toString_2: "toString 2 = ''2''" 
  by (simp add: toString_def nat_digits.simps digit_char_def)

lemma toString_10: "toString 10 = ''10''" 
  by (simp add: toString_def nat_digits.simps digit_char_def)

lemma toString_0: "toString 0 = ''0''" 
  by (simp add: toString_def nat_digits.simps digit_char_def)

lemma r64_fifth_100_nf: "r64 (90071992547409925 / 4503599627370496) = Num 20"
  using r64_fifth_100 by simp

lemma r64_neg_numeral: "numeral w \<le> (2::nat) ^ 53 \<Longrightarrow> r64 (- numeral w) = Num (- numeral w)"
  using r64_neg[of "numeral w"] by (simp add: r64_numeral)

lemma parse_500: "parseInt10 (replaceDots ''500'') = Num 500"
  by (simp add: parseInt10_def replaceDots_def splitSign_def isWhiteSpace_def isDigit_def
        digits_val_def digit_val_def r64_numeral)

section \<open>The claims about the aggregation\<close>

text \<open>
  Claim C4, as the code has it.  When every skill record has its fields and a damage that
  parses to a number (so that every record gives a row),
  the aggregation returns rows in which each damage is at least the next one, and the
  rows of any one damage keep the order of the records they come from; the rows are
  those of the records, and no other arrangement of them has the two properties.
\<close>

theorem sorted_rows_C4:
  assumes "list_all wellFormed sks"
  shows "\<exists>rows. cleanedData totalDamage dict sks = Inr rows
     \<and> list_all (\<lambda>sk. \<not> isl (cleanSkill totalDamage dict sk)) sks
     \<and> (\<forall>i. Suc i < length rows \<longrightarrow> jge (damage (rows ! i)) (damage (rows ! Suc i)))
     \<and> (\<forall>d. filter (\<lambda>r. damage r = d) rows
             = filter (\<lambda>r. damage r = d) (map (\<lambda>sk. projr (cleanSkill totalDamage dict sk)) sks))
     \<and> mset rows = mset (map (\<lambda>sk. projr (cleanSkill totalDamage dict sk)) sks)
     \<and> (\<forall>rows'. sorted_wrt (\<lambda>a b. jge (damage a) (damage b)) rows'
            \<and> (\<forall>d. filter (\<lambda>r. damage r = d) rows'
                   = filter (\<lambda>r. damage r = d) (map (\<lambda>sk. projr (cleanSkill totalDamage dict sk)) sks))
          \<longrightarrow> rows' = rows)"
proof -
  define mapped where "mapped = map (\<lambda>sk. projr (cleanSkill totalDamage dict sk)) sks"
  have wf: "present sk \<and> parseInt10 (replaceDots (the (s_damage sk))) \<noteq> NaN" if "sk \<in> set sks" for sk
    using assms that by (auto simp: list_all_iff wellFormed_def present_def split: option.splits)
  then have p: "list_all present sks" by (simp add: list_all_iff)
  have ok: "list_all (\<lambda>sk. \<not> isl (cleanSkill totalDamage dict sk)) sks"
    unfolding list_all_iff
  proof
    fix sk assume "sk \<in> set sks"
    with wf cleanSkill_present[of sk totalDamage dict] show "\<not> isl (cleanSkill totalDamage dict sk)"
      by auto
  qed
  from p have c: "cleanedData totalDamage dict sks = Inr (sortRows mapped)"
    by (simp add: cleanedData_def mapSkills_present mapped_def)
  have good: "\<forall>r \<in> set mapped. intnum (damage r)"
  proof
    fix r assume "r \<in> set mapped"
    then obtain sk where sk: "sk \<in> set sks" "r = projr (cleanSkill totalDamage dict sk)"
      by (auto simp: mapped_def)
    with wf have "present sk" "parseInt10 (replaceDots (the (s_damage sk))) \<noteq> NaN" by auto
    with sk cleanSkill_present[of sk totalDamage dict] show "intnum (damage r)"
      by (auto intro: parseInt10_intnum)
  qed
  have s: "sorted_wrt (\<lambda>a b. jge (damage a) (damage b)) (sortRows mapped)"
    using good by (rule sorted_sortRows)
  have adj: "\<forall>i. Suc i < length (sortRows mapped) \<longrightarrow>
      jge (damage (sortRows mapped ! i)) (damage (sortRows mapped ! Suc i))"
    using s by (auto simp: sorted_wrt_iff_nth_less)
  have st: "\<forall>d. filter (\<lambda>r. damage r = d) (sortRows mapped) = filter (\<lambda>r. damage r = d) mapped"
    by (simp add: filter_sortRows)
  have good': "\<forall>r \<in> set (sortRows mapped). intnum (damage r)"
    using good by (simp add: set_sortRows)
  have un: "\<forall>rows'. sorted_wrt (\<lambda>a b. jge (damage a) (damage b)) rows'
            \<and> (\<forall>d. filter (\<lambda>r. damage r = d) rows' = filter (\<lambda>r. damage r = d) mapped)
          \<longrightarrow> rows' = sortRows mapped"
  proof (intro allI impI)
    fix rows'
    assume a: "sorted_wrt (\<lambda>a b. jge (damage a) (damage b)) rows'
            \<and> (\<forall>d. filter (\<lambda>r. damage r = d) rows' = filter (\<lambda>r. damage r = d) mapped)"
    then have "\<forall>d. filter (\<lambda>r. damage r = d) rows' = filter (\<lambda>r. damage r = d) (sortRows mapped)"
      by (simp add: st)
    with good' s a show "rows' = sortRows mapped" by (intro stable_sorted_unique) simp_all
  qed
  from c ok adj st mset_sortRows[of mapped] un
  have "cleanedData totalDamage dict sks = Inr (sortRows mapped)
     \<and> list_all (\<lambda>sk. \<not> isl (cleanSkill totalDamage dict sk)) sks
     \<and> (\<forall>i. Suc i < length (sortRows mapped) \<longrightarrow>
           jge (damage (sortRows mapped ! i)) (damage (sortRows mapped ! Suc i)))
     \<and> (\<forall>d. filter (\<lambda>r. damage r = d) (sortRows mapped) = filter (\<lambda>r. damage r = d) mapped)
     \<and> mset (sortRows mapped) = mset mapped
     \<and> (\<forall>rows'. sorted_wrt (\<lambda>a b. jge (damage a) (damage b)) rows'
            \<and> (\<forall>d. filter (\<lambda>r. damage r = d) rows' = filter (\<lambda>r. damage r = d) mapped)
          \<longrightarrow> rows' = sortRows mapped)"
    by (intro conjI)
  then show ?thesis unfolding mapped_def by (rule exI)
qed

text \<open>A basic attack of 500 before a skill of 1.000: the rows come out as 1000, 500.\<close>

theorem sorted_rows_C4_witness:
  "list_all wellFormed [basic_attack, fireball]
   \<and> map damage (projr (cleanedData (Num 1500) Map.empty [basic_attack, fireball]))
       = [Num 1000, Num 500]
   \<and> jge (Num 1000) (Num 500)"
  using sorted_rows_C4 [of "[basic_attack, fireball]" "Num 1500" Map.empty]
  by (simp add: wellFormed_def basic_attack_def fireball_def parse_500 parse_1000 cleanedData_def
        cleanSkill_def sortRows_def compareFn_def r64_numeral r64_neg_numeral Let_def)

text \<open>
  A record whose damage is \<^verbatim>\<open>"abc"\<close> is not rejected: its row has the damage
  \<open>NaN\<close>, and next to the row of damage 1000 neither order satisfies
  \<^verbatim>\<open>>=\<close>.
\<close>

theorem sorted_rows_C4_counterexample:
  "cleanedData (Num 1000) [''5'' \<mapsto> ''Fireball''] [bad_damage, fireball]
     = Inr [\<lparr>name = ''Fireball'', damage = NaN, percent = NaN,
              crit_hits = ''0 / 0'', crit_rate = Num 0\<rparr>,
            \<lparr>name = ''Fireball'', damage = Num 1000, percent = Num 100,
              crit_hits = ''2 / 10'', crit_rate = Num 20\<rparr>]
   \<and> \<not> jge NaN (Num 1000) \<and> \<not> jge (Num 1000) NaN"
  by (simp add: bad_damage_def fireball_def cleanedData_def cleanSkill_def sortRows_def compareFn_def
        parse_abc parse_1000 toString_5 toString_0 toString_2
        toString_10 r64_one r64_numeral r64_fifth r64_fifth_100_nf floor_rat_numeral)

text \<open>
  Claim C5.  When the total damage of the player found parses to zero, the handler
  answers with the message and an empty data array, whatever the player's skill records
  are, and issues no lookup: the aggregation, and its division by the total, is never
  reached.
\<close>

theorem zero_damage_C5:
  assumes "ident \<noteq> []" and "player_id \<noteq> []" and "gate_id \<noteq> []"
    and "gates rd = Some gs" and "findGate gs gate_id = Some gt"
    and "g_players gt = Some ps" and "findPlayer ps player_id = Some pl"
    and "p_damageDealt pl = Some dd" and "parseInt10 (replaceDots dd) = Num 0"
  shows "handler (Some ident) (Some player_id) (Some gate_id) (RunOk rd) lookup
           = (MessageOk ''Player has 0 damage for this gate.'' [], [])"
  using assms by (simp add: handler_def handlerBody_def)

text \<open>A player with damage \<^verbatim>\<open>"0.000"\<close> and no skills at all.\<close>

theorem zero_damage_C5_witness:
  "gates zero_run = Some [\<lparr>g_id = IdStr ''g1'', g_name = ''Envy'', g_players = Some [zero_player]\<rparr>]
   \<and> findGate [\<lparr>g_id = IdStr ''g1'', g_name = ''Envy'', g_players = Some [zero_player]\<rparr>] ''g1''
       = Some \<lparr>g_id = IdStr ''g1'', g_name = ''Envy'', g_players = Some [zero_player]\<rparr>
   \<and> findPlayer [zero_player] ''p1'' = Some zero_player
   \<and> p_damageDealt zero_player = Some ''0.000''
   \<and> parseInt10 (replaceDots ''0.000'') = Num 0
   \<and> handler (Some ''1'') (Some ''p1'') (Some ''g1'') (RunOk zero_run) sample_lookup
       = (MessageOk ''Player has 0 damage for this gate.'' [], [])"
proof -
  have g: "gates zero_run = Some [\<lparr>g_id = IdStr ''g1'', g_name = ''Envy'', g_players = Some [zero_player]\<rparr>]"
    by (simp add: zero_run_def)
  have fg: "findGate [\<lparr>g_id = IdStr ''g1'', g_name = ''Envy'', g_players = Some [zero_player]\<rparr>] ''g1''
       = Some \<lparr>g_id = IdStr ''g1'', g_name = ''Envy'', g_players = Some [zero_player]\<rparr>"
    by (simp add: findGate_def)
  have gp: "g_players \<lparr>g_id = IdStr ''g1'', g_name = ''Envy'', g_players = Some [zero_player]\<rparr>
       = Some [zero_player]" by simp
  have fp: "findPlayer [zero_player] ''p1'' = Some zero_player"
    by (simp add: findPlayer_def zero_player_def)
  have dd: "p_damageDealt zero_player = Some ''0.000''" by (simp add: zero_player_def)
  have "handler (Some ''1'') (Some ''p1'') (Some ''g1'') (RunOk zero_run) sample_lookup
       = (MessageOk ''Player has 0 damage for this gate.'' [], [])"
    by (rule zero_damage_C5 [OF _ _ _ g fg gp fp dd parse_0]) simp_all
  with g fg fp dd parse_0 show ?thesis by (intro conjI)
qed

text \<open>
  Claim C7, as the code has it.  The aggregation is a function of the total, the
  dictionary and the skill records.  It returns one row for each record when every record
  has its damage and its hit counts, whatever the damage string holds.  Otherwise it
  fails with the TypeError of the first missing field; that error is one of two values
  and stays the same when the skill identifiers are renumbered, so it does not tell
  which record is at fault.
\<close>

theorem aggregator_failure_C7:
  "(list_all present sks \<longrightarrow>
      (\<exists>rows. cleanedData t dict sks = Inr rows \<and> length rows = length sks))
   \<and> (\<not> list_all present sks \<longrightarrow>
        (cleanedData t dict sks = Inl (TypeError ''replace'')
           \<or> cleanedData t dict sks = Inl (TypeError ''1''))
        \<and> cleanedData t' dict' (map (\<lambda>sk. sk\<lparr>s_id := f (s_id sk)\<rparr>) sks) = cleanedData t dict sks)"
proof (intro conjI impI)
  assume "list_all present sks"
  then have "cleanedData t dict sks = Inr (sortRows (map (\<lambda>sk. projr (cleanSkill t dict sk)) sks))"
    by (simp add: cleanedData_def mapSkills_present)
  moreover have "length (sortRows rs) = length rs" for rs
    using mset_sortRows[of rs] by (metis size_mset)
  ultimately show "\<exists>rows. cleanedData t dict sks = Inr rows \<and> length rows = length sks"
    by simp
next
  assume a: "\<not> list_all present sks"
  from mapSkills_absent[OF a, of t dict]
  show "cleanedData t dict sks = Inl (TypeError ''replace'') \<or> cleanedData t dict sks = Inl (TypeError ''1'')"
    by (auto simp: cleanedData_def)
next
  assume a: "\<not> list_all present sks"
  show "cleanedData t' dict' (map (\<lambda>sk. sk\<lparr>s_id := f (s_id sk)\<rparr>) sks) = cleanedData t dict sks"
    unfolding cleanedData_def mapSkills_renumber[OF a, of t' dict' f t dict] ..
qed

text \<open>A record without damage fails; a record with both fields gives a row.\<close>

theorem aggregator_failure_C7_witness:
  "\<not> list_all present [no_damage 5]
   \<and> cleanedData (Num 1000) Map.empty [no_damage 5] = Inl (TypeError ''replace'')
   \<and> list_all present [bad_damage]
   \<and> length (projr (cleanedData (Num 1000) Map.empty [bad_damage])) = 1"
  using aggregator_failure_C7 [of "[no_damage 5]" "Num 1000" Map.empty "Num 1000" Map.empty id]
    aggregator_failure_C7 [of "[bad_damage]" "Num 1000" Map.empty "Num 1000" Map.empty id]
  by (auto simp: present_def no_damage_def bad_damage_def cleanedData_def cleanSkill_def)

text \<open>
  A missing damage fails with the same error for skill 5 and for skill 7, and a damage
  that is not a number does not fail: its row has damage and percent \<open>NaN\<close>.
\<close>

theorem aggregator_failure_C7_counterexample:
  "cleanedData (Num 1000) Map.empty [no_damage 5] = Inl (TypeError ''replace'')
   \<and> cleanedData (Num 1000) Map.empty [no_damage 7] = Inl (TypeError ''replace'')
   \<and> cleanedData (Num 1000) Map.empty [bad_damage]
       = Inr [\<lparr>name = ''Unknown Skill (5)'', damage = NaN, percent = NaN,
              crit_hits = ''0 / 0'', crit_rate = Num 0\<rparr>]"
  by (simp add: no_damage_def bad_damage_def cleanedData_def cleanSkill_def sortRows_def
        parse_abc unknownSkill_def toString_5 toString_0)

section \<open>Equality of identifiers\<close>

lemma digit_not_ws: "isDigit c \<Longrightarrow> \<not> isWhiteSpace c"
  by (auto simp: isDigit_def isWhiteSpace_def)

lemma dropWhile_self: "s \<noteq> [] \<Longrightarrow> \<not> P (hd s) \<Longrightarrow> dropWhile P s = s"
  by (cases s) simp_all

lemma trimWS_id:
  assumes "s \<noteq> []" and "\<not> isWhiteSpace (hd s)" and "\<not> isWhiteSpace (last s)"
  shows "trimWS s = s"
proof -
  have 1: "dropWhile isWhiteSpace s = s" using assms by (simp add: dropWhile_self)
  have 2: "dropWhile isWhiteSpace (rev s) = rev s"
    using assms by (intro dropWhile_self) (simp_all add: hd_rev)
  show ?thesis by (simp add: trimWS_def 1 2)
qed

lemma all_digits_hd_last:
  "s \<noteq> [] \<Longrightarrow> list_all isDigit s \<Longrightarrow> isDigit (hd s) \<and> isDigit (last s)"
  by (simp add: list_all_iff)

lemma nonDecimal_digits: "list_all isDigit s \<Longrightarrow> nonDecimalLiteral s = None"
  by (auto simp: nonDecimalLiteral_def isDigit_def split: list.splits)

lemma splitSign_digits: "s \<noteq> [] \<Longrightarrow> isDigit (hd s) \<Longrightarrow> splitSign s = (False, s)"
  by (cases s) (auto simp: splitSign_def isDigit_def)

lemma takeWhile_all: "list_all P s \<Longrightarrow> takeWhile P s = s \<and> dropWhile P s = []"
  by (simp add: list_all_iff)

lemma strUnsignedDecimal_digits:
  "s \<noteq> [] \<Longrightarrow> list_all isDigit s \<Longrightarrow> strUnsignedDecimal s = Some (of_nat (digits_val s))"
  by (simp add: strUnsignedDecimal_def takeWhile_all exponentPart_def)

lemma not_Infinity: "list_all isDigit s \<Longrightarrow> s \<noteq> ''Infinity''"
  by (auto simp: isDigit_def)

lemma StringToNumber_digits:
  assumes "m \<le> 2 ^ 53"
  shows "StringToNumber (nat_digits m) = Num (of_nat m)"
proof -
  let ?s = "nat_digits m"
  have ne: "?s \<noteq> []" by (rule nat_digits_nonempty)
  have ad: "list_all isDigit ?s" by (rule nat_digits_all_digits)
  from all_digits_hd_last[OF ne ad] have hl: "isDigit (hd ?s)" "isDigit (last ?s)" by simp_all
  have t: "trimWS ?s = ?s" using ne hl by (simp add: trimWS_id digit_not_ws)
  show ?thesis
    unfolding StringToNumber_def t
    using ne by (simp add: nonDecimal_digits[OF ad] splitSign_digits[OF ne hl(1)] not_Infinity[OF ad]
      strUnsignedDecimal_digits[OF ne ad] digits_val_nat_digits r64_nat_exact[OF assms])
qed

lemma StringToNumber_minus_digits:
  assumes "m \<le> 2 ^ 53" and "0 < m"
  shows "StringToNumber (CHR ''-'' # nat_digits m) = Num (- of_nat m)"
proof -
  let ?s = "nat_digits m"
  have ne: "?s \<noteq> []" by (rule nat_digits_nonempty)
  have ad: "list_all isDigit ?s" by (rule nat_digits_all_digits)
  from all_digits_hd_last[OF ne ad] have hl: "isDigit (hd ?s)" "isDigit (last ?s)" by simp_all
  have t: "trimWS (CHR ''-'' # ?s) = CHR ''-'' # ?s"
    using ne hl by (intro trimWS_id) (simp_all add: digit_not_ws, simp add: isWhiteSpace_def)
  have nd: "nonDecimalLiteral (CHR ''-'' # ?s) = None"
    by (simp add: nonDecimalLiteral_def split: list.splits)
  have sp: "splitSign (CHR ''-'' # ?s) = (True, ?s)" by (simp add: splitSign_def)
  have nz: "rat_of_nat m \<noteq> 0" using assms(2) by simp
  show ?thesis
    unfolding StringToNumber_def t
    by (simp add: nd sp not_Infinity[OF ad] strUnsignedDecimal_digits[OF ne ad]
      digits_val_nat_digits r64_neg[OF nz] r64_nat_exact[OF assms(1)])
qed

lemma StringToNumber_toString:
  assumes "\<bar>n\<bar> \<le> 2 ^ 53"
  shows "StringToNumber (toString n) = Num (of_int n)"
proof (cases "n < 0")
  case True
  then have "nat (- n) \<le> 2 ^ 53" "0 < nat (- n)" using assms by simp_all
  from StringToNumber_minus_digits[OF this] True show ?thesis by (simp add: toString_def)
next
  case False
  then have "nat n \<le> 2 ^ 53" using assms by simp
  from StringToNumber_digits[OF this] False show ?thesis by (simp add: toString_def)
qed

lemma toString_62257: "toString 62257 = ''62257''"
  by (simp add: toString_def nat_digits.simps digit_char_def)

lemma findGate_None: "findGate gs q = None \<longleftrightarrow> (\<forall>g \<in> set gs. \<not> strictEq (g_id g) q)"
  unfolding findGate_def find_None_iff by blast

lemma findPlayer_None: "findPlayer ps q = None \<longleftrightarrow> (\<forall>p \<in> set ps. \<not> looseEq (p_id p) q)"
  unfolding findPlayer_def find_None_iff by blast

lemma find_Some_holds: "find P xs = Some x \<Longrightarrow> x \<in> set xs \<and> P x"
  by (induction xs) (auto split: if_splits)

lemma findGate_Some: "findGate gs q = Some g \<Longrightarrow> g \<in> set gs \<and> strictEq (g_id g) q"
  unfolding findGate_def by (rule find_Some_holds)

lemma findPlayer_Some: "findPlayer ps q = Some p \<Longrightarrow> p \<in> set ps \<and> looseEq (p_id p) q"
  unfolding findPlayer_def by (rule find_Some_holds)

lemma sample_gates: "gates sample_run = Some [sample_gate]"
  by (simp add: sample_run_def)

lemma sample_gate_id: "g_id sample_gate = IdStr ''776482144628289536''"
  by (simp add: sample_gate_def)

lemma numbered_gates:
  "gates numbered_run = Some [\<lparr>g_id = IdNum 3, g_name = ''Sloth'', g_players = Some [sample_player]\<rparr>]"
  by (simp add: numbered_run_def)

lemma find_Some_first:
  "find P xs = Some x \<Longrightarrow> \<exists>pre post. xs = pre @ x # post \<and> P x \<and> (\<forall>y \<in> set pre. \<not> P y)"
proof (induction xs)
  case Nil
  then show ?case by simp
next
  case (Cons a xs)
  show ?case
  proof (cases "P a")
    case True
    with Cons.prems have "a = x" by simp
    with True have "a # xs = [] @ x # xs \<and> P x \<and> (\<forall>y \<in> set []. \<not> P y)" by simp
    then show ?thesis by blast
  next
    case False
    with Cons.prems have "find P xs = Some x" by simp
    from Cons.IH[OF this] obtain pre post
      where "xs = pre @ x # post" "P x" "\<forall>y \<in> set pre. \<not> P y" by blast
    with False have "a # xs = (a # pre) @ x # post \<and> P x \<and> (\<forall>y \<in> set (a # pre). \<not> P y)"
      by simp
    then show ?thesis by blast
  qed
qed

lemma looseEq_toString:
  assumes "\<bar>n\<bar> \<le> 2 ^ 53"
  shows "looseEq i (toString n) \<longleftrightarrow> i = IdNum n \<or> i = IdStr (toString n)"
proof (cases i)
  case (IdNum m)
  have "StringToNumber (toString n) = Num (of_int n)" using assms by (rule StringToNumber_toString)
  with IdNum show ?thesis by auto
next
  case (IdStr s)
  then show ?thesis by auto
qed

lemma goose_id: "p_id goose = IdNum 7"
  by (simp add: goose_def)

lemma sample_player_id: "p_id sample_player = IdNum 62257"
  by (simp add: sample_player_def)

section \<open>The claim about the gate and the player\<close>

text \<open>
  Claim C10.  The gate found has the string \<open>gate_id\<close> as its identifier, and a gate
  with that string identifier is always found; when every gate identifier is a number, no
  gate is found.  A player whose identifier is the number \<open>n\<close> is matched by the
  decimal string of \<open>n\<close>, so the search returns a player, while strict equality of
  that number and string is false.  The decimal string of \<open>n\<close> matches the number
  \<open>n\<close> and the string itself, and no other identifier: the search returns the first
  player with one of these two identifiers, passing over the players before it, and
  returns none exactly when no player has one of them.  (\<open>n\<close> is within the integers a
  binary64 holds exactly.)
\<close>

theorem gate_and_player_lookup_C10:
  "(findGate gs gate_id = Some g \<longrightarrow> g \<in> set gs \<and> g_id g = IdStr gate_id)
   \<and> ((\<exists>g \<in> set gs. g_id g = IdStr gate_id) \<longrightarrow> findGate gs gate_id \<noteq> None)
   \<and> ((\<forall>g \<in> set gs. \<exists>k. g_id g = IdNum k) \<longrightarrow> findGate gs gate_id = None)
   \<and> (p \<in> set ps \<and> p_id p = IdNum n \<and> \<bar>n\<bar> \<le> 2 ^ 53 \<longrightarrow>
        (\<exists>p'. findPlayer ps (toString n) = Some p' \<and> p' \<in> set ps
              \<and> looseEq (p_id p') (toString n)))
   \<and> (\<bar>n\<bar> \<le> 2 ^ 53 \<longrightarrow> looseEq (IdNum n) (toString n) \<and> \<not> strictEq (IdNum n) (toString n))
   \<and> (\<bar>n\<bar> \<le> 2 ^ 53 \<longrightarrow>
        (looseEq i (toString n) \<longleftrightarrow> i = IdNum n \<or> i = IdStr (toString n)))
   \<and> (\<bar>n\<bar> \<le> 2 ^ 53 \<longrightarrow>
        (findPlayer ps (toString n) = None
           \<longleftrightarrow> (\<forall>x \<in> set ps. p_id x \<noteq> IdNum n \<and> p_id x \<noteq> IdStr (toString n))))
   \<and> (\<bar>n\<bar> \<le> 2 ^ 53 \<and> findPlayer ps (toString n) = Some pl \<longrightarrow>
        (\<exists>pre post. ps = pre @ pl # post
           \<and> (p_id pl = IdNum n \<or> p_id pl = IdStr (toString n))
           \<and> (\<forall>x \<in> set pre. p_id x \<noteq> IdNum n \<and> p_id x \<noteq> IdStr (toString n))))"
proof -
  have c1: "findGate gs gate_id = Some g \<longrightarrow> g \<in> set gs \<and> g_id g = IdStr gate_id"
  proof
    assume "findGate gs gate_id = Some g"
    from findGate_Some[OF this] show "g \<in> set gs \<and> g_id g = IdStr gate_id"
      by (cases "g_id g") simp_all
  qed
  have c2: "(\<exists>g \<in> set gs. g_id g = IdStr gate_id) \<longrightarrow> findGate gs gate_id \<noteq> None"
  proof
    assume "\<exists>g \<in> set gs. g_id g = IdStr gate_id"
    then obtain g' where g': "g' \<in> set gs" "g_id g' = IdStr gate_id" by blast
    then have "strictEq (g_id g') gate_id" by simp
    with g'(1) show "findGate gs gate_id \<noteq> None" unfolding findGate_None by blast
  qed
  have c3: "(\<forall>g \<in> set gs. \<exists>k. g_id g = IdNum k) \<longrightarrow> findGate gs gate_id = None"
  proof
    assume a: "\<forall>g \<in> set gs. \<exists>k. g_id g = IdNum k"
    have "\<not> strictEq (g_id g') gate_id" if "g' \<in> set gs" for g'
    proof -
      from a that obtain k where "g_id g' = IdNum k" by blast
      then show ?thesis by simp
    qed
    then show "findGate gs gate_id = None" unfolding findGate_None by blast
  qed
  have c4: "p \<in> set ps \<and> p_id p = IdNum n \<and> \<bar>n\<bar> \<le> 2 ^ 53 \<longrightarrow>
        (\<exists>p'. findPlayer ps (toString n) = Some p' \<and> p' \<in> set ps
              \<and> looseEq (p_id p') (toString n))"
  proof
    assume a: "p \<in> set ps \<and> p_id p = IdNum n \<and> \<bar>n\<bar> \<le> 2 ^ 53"
    then have "looseEq (p_id p) (toString n)" by (simp add: StringToNumber_toString)
    with a have "findPlayer ps (toString n) \<noteq> None"
      unfolding findPlayer_None by blast
    then obtain p' where p': "findPlayer ps (toString n) = Some p'" by blast
    from findPlayer_Some[OF this] p'
    show "\<exists>p'. findPlayer ps (toString n) = Some p' \<and> p' \<in> set ps
        \<and> looseEq (p_id p') (toString n)"
      by blast
  qed
  have c5: "\<bar>n\<bar> \<le> 2 ^ 53 \<longrightarrow> looseEq (IdNum n) (toString n) \<and> \<not> strictEq (IdNum n) (toString n)"
    by (simp add: StringToNumber_toString)
  have c6: "\<bar>n\<bar> \<le> 2 ^ 53 \<longrightarrow>
        (looseEq i (toString n) \<longleftrightarrow> i = IdNum n \<or> i = IdStr (toString n))"
    by (rule impI) (rule looseEq_toString)
  have c7: "\<bar>n\<bar> \<le> 2 ^ 53 \<longrightarrow>
        (findPlayer ps (toString n) = None
           \<longleftrightarrow> (\<forall>x \<in> set ps. p_id x \<noteq> IdNum n \<and> p_id x \<noteq> IdStr (toString n)))"
  proof
    assume a: "\<bar>n\<bar> \<le> 2 ^ 53"
    show "findPlayer ps (toString n) = None
           \<longleftrightarrow> (\<forall>x \<in> set ps. p_id x \<noteq> IdNum n \<and> p_id x \<noteq> IdStr (toString n))"
      unfolding findPlayer_None looseEq_toString[OF a] by simp
  qed
  have c8: "\<bar>n\<bar> \<le> 2 ^ 53 \<and> findPlayer ps (toString n) = Some pl \<longrightarrow>
        (\<exists>pre post. ps = pre @ pl # post
           \<and> (p_id pl = IdNum n \<or> p_id pl = IdStr (toString n))
           \<and> (\<forall>x \<in> set pre. p_id x \<noteq> IdNum n \<and> p_id x \<noteq> IdStr (toString n)))"
  proof
    assume a: "\<bar>n\<bar> \<le> 2 ^ 53 \<and> findPlayer ps (toString n) = Some pl"
    then have b: "\<bar>n\<bar> \<le> 2 ^ 53"
      and "find (\<lambda>x. looseEq (p_id x) (toString n)) ps = Some pl"
      by (simp_all add: findPlayer_def)
    from find_Some_first[OF this(2)]
    show "\<exists>pre post. ps = pre @ pl # post
           \<and> (p_id pl = IdNum n \<or> p_id pl = IdStr (toString n))
           \<and> (\<forall>x \<in> set pre. p_id x \<noteq> IdNum n \<and> p_id x \<noteq> IdStr (toString n))"
      unfolding looseEq_toString[OF b] by simp
  qed
  from c1 c2 c3 c4 c5 c6 c7 c8 show ?thesis by (intro conjI)
qed

text \<open>
  The sample player 62257 behind a player with identifier 7, and a run whose gate
  identifier is the number 3.
\<close>

theorem gate_and_player_lookup_C10_witness:
  "sample_player \<in> set [goose, sample_player] \<and> p_id sample_player = IdNum 62257
   \<and> \<bar>62257::int\<bar> \<le> 2 ^ 53
   \<and> p_id goose = IdNum 7
   \<and> findPlayer [goose, sample_player] ''62257'' = Some sample_player
   \<and> findGate [sample_gate] ''776482144628289536'' = Some sample_gate
   \<and> g_id sample_gate = IdStr ''776482144628289536''
   \<and> findGate [\<lparr>g_id = IdNum 3, g_name = ''Sloth'', g_players = Some [sample_player]\<rparr>] ''3'' = None
   \<and> fst (handler (Some ''1'') (Some ''62257'') (Some ''3'') (RunOk numbered_run) sample_lookup)
       = ServerError (Error (''Gate with ID '' @ apostrophe @ ''3'' @ apostrophe @ '' not found.''))"
proof -
  have a: "sample_player \<in> set [goose, sample_player]" by simp
  have b: "p_id sample_player = IdNum 62257" by (rule sample_player_id)
  have c: "\<bar>62257::int\<bar> \<le> 2 ^ 53" by simp
  note t = gate_and_player_lookup_C10
      [of "[\<lparr>g_id = IdNum 3, g_name = ''Sloth'', g_players = Some [sample_player]\<rparr>]" "''3''"
        sample_gate sample_player "[goose, sample_player]" 62257 "IdNum 7" goose]
  note t4 = t [THEN conjunct2, THEN conjunct2, THEN conjunct2, THEN conjunct1]
  note t8 = t [THEN conjunct2, THEN conjunct2, THEN conjunct2, THEN conjunct2, THEN conjunct2,
      THEN conjunct2, THEN conjunct2]
  from mp [OF t4 conjI [OF a conjI [OF b c]]]
  obtain p' where f: "findPlayer [goose, sample_player] (toString 62257) = Some p'"
    and m: "p' \<in> set [goose, sample_player]" by (elim exE conjE)
  have "p' \<noteq> goose"
  proof
    assume "p' = goose"
    with f have "findPlayer [goose, sample_player] (toString 62257) = Some goose" by simp
    from mp [OF t8 conjI [OF c this]]
    have "p_id goose = IdNum 62257 \<or> p_id goose = IdStr (toString 62257)" by (elim exE conjE)
    then show False by (simp add: goose_id)
  qed
  with m have "p' = sample_player" by simp
  with f have d: "findPlayer [goose, sample_player] ''62257'' = Some sample_player"
    by (simp add: toString_62257)
  have e: "findGate [sample_gate] ''776482144628289536'' = Some sample_gate"
    by (simp add: findGate_def sample_gate_id)
  have "\<forall>g \<in> set [\<lparr>g_id = IdNum 3, g_name = ''Sloth'', g_players = Some [sample_player]\<rparr>].
          \<exists>k. g_id g = IdNum k"
    by simp
  with t [THEN conjunct2, THEN conjunct2, THEN conjunct1]
  have g: "findGate [\<lparr>g_id = IdNum 3, g_name = ''Sloth'', g_players = Some [sample_player]\<rparr>] ''3'' = None"
    by (rule mp)
  have h: "fst (handler (Some ''1'') (Some ''62257'') (Some ''3'') (RunOk numbered_run) sample_lookup)
       = ServerError (Error (''Gate with ID '' @ apostrophe @ ''3'' @ apostrophe @ '' not found.''))"
    by (simp add: handler_def handlerBody_def numbered_gates g)
  from a b c goose_id d e sample_gate_id g h show ?thesis by (intro conjI)
qed

section \<open>The Fireball scenario\<close>

lemma fireball_rows:
  "dict ''5'' = Some ''Fireball'' \<Longrightarrow>
     cleanedData (Num 1000) dict [\<lparr>s_id = 5, s_damage = Some ''1.000'', s_hitCounts = Some [8, 2]\<rparr>]
       = Inr [\<lparr>name = ''Fireball'', damage = Num 1000, percent = Num 100,
              crit_hits = ''2 / 10'', crit_rate = Num 20\<rparr>]"
  by (simp add: cleanedData_def cleanSkill_def sortRows_def parse_1000 toString_5 toString_2
        toString_10 r64_one r64_numeral r64_fifth r64_fifth_100_nf floor_rat_numeral)

lemma scenario_find_player: "findPlayer [scenario_player] ''62257'' = Some scenario_player"
proof -
  have "p_id scenario_player = IdNum 62257" by (simp add: scenario_player_def)
  moreover have "StringToNumber ''62257'' = Num (of_int 62257)"
    using StringToNumber_toString [of 62257] by (simp add: toString_62257)
  ultimately have "looseEq (p_id scenario_player) ''62257''" by simp
  then show ?thesis by (simp add: findPlayer_def)
qed

lemma scenario_dictionary:
  "resolvePlayer sample_lookup (uniqueSkillIds [fireball])
     = ([5], snd (resolvePlayer sample_lookup [5]))
   \<and> snd (resolvePlayer sample_lookup [5]) ''5'' = Some ''Fireball''"
proof -
  have u: "uniqueSkillIds [fireball] = [5]"
    by (simp add: uniqueSkillIds_def new_Set_def set_add_def fireball_def)
  have c: "fst (resolvePlayer sample_lookup [5]) = [5]" by (simp add: resolvePlayer_calls)
  have k: "snd (resolvePlayer sample_lookup [5]) ''5'' = Some ''Fireball''"
    using resolvePlayer_key [of sample_lookup "[5]" 5]
    by (simp add: toString_5 fetchSkillName_def sample_lookup_def)
  from u c k show ?thesis by (simp add: prod_eq_iff)
qed

text \<open>
  Claim C6.  Total \<^verbatim>\<open>"1.000"\<close>, one record for skill 5 with damage
  \<^verbatim>\<open>"1.000"\<close> and hit counts 8 and 2, and the dictionary with Fireball for 5: the
  aggregation returns the single row with damage 1000, percent 100, \<^verbatim>\<open>"2 / 10"\<close>
  and crit rate 20.  The handler, on the run with one gate and one player that holds this
  record, answers with that row after one lookup, of skill 5.
\<close>

theorem fireball_scenario_C6:
  "cleanedData (parseInt10 (replaceDots ''1.000'')) [''5'' \<mapsto> ''Fireball'']
     [\<lparr>s_id = 5, s_damage = Some ''1.000'', s_hitCounts = Some [8, 2]\<rparr>]
   = Inr [\<lparr>name = ''Fireball'', damage = Num 1000, percent = Num 100,
          crit_hits = ''2 / 10'', crit_rate = Num 20\<rparr>]
   \<and> handler (Some ''1'') (Some ''62257'') (Some ''776482144628289536'') (RunOk scenario_run)
       sample_lookup
   = (RowsOk [\<lparr>name = ''Fireball'', damage = Num 1000, percent = Num 100,
               crit_hits = ''2 / 10'', crit_rate = Num 20\<rparr>], [5])"
proof -
  have r: "cleanedData (parseInt10 (replaceDots ''1.000'')) [''5'' \<mapsto> ''Fireball'']
       [\<lparr>s_id = 5, s_damage = Some ''1.000'', s_hitCounts = Some [8, 2]\<rparr>]
     = Inr [\<lparr>name = ''Fireball'', damage = Num 1000, percent = Num 100,
            crit_hits = ''2 / 10'', crit_rate = Num 20\<rparr>]"
    unfolding parse_1000 by (rule fireball_rows) simp
  have g: "gates scenario_run = Some [\<lparr>g_id = IdStr ''776482144628289536'', g_name = ''Total'',
       g_players = Some [scenario_player]\<rparr>]"
    by (simp add: scenario_run_def)
  have fg: "findGate [\<lparr>g_id = IdStr ''776482144628289536'', g_name = ''Total'',
       g_players = Some [scenario_player]\<rparr>] ''776482144628289536''
     = Some \<lparr>g_id = IdStr ''776482144628289536'', g_name = ''Total'',
         g_players = Some [scenario_player]\<rparr>"
    by (simp add: findGate_def)
  have dd: "p_damageDealt scenario_player = Some ''1.000''" by (simp add: scenario_player_def)
  have sk: "p_skills scenario_player = Some [fireball]" by (simp add: scenario_player_def)
  have rows: "cleanedData (Num 1000) (snd (resolvePlayer sample_lookup [5])) [fireball]
     = Inr [\<lparr>name = ''Fireball'', damage = Num 1000, percent = Num 100,
            crit_hits = ''2 / 10'', crit_rate = Num 20\<rparr>]"
    unfolding fireball_def
    by (rule fireball_rows) (rule scenario_dictionary [THEN conjunct2])
  have a: "analysePlayer (Num 1000) scenario_player sample_lookup
     = (RowsOk [\<lparr>name = ''Fireball'', damage = Num 1000, percent = Num 100,
                 crit_hits = ''2 / 10'', crit_rate = Num 20\<rparr>], [5])"
    by (simp add: analysePlayer_def sk scenario_dictionary [THEN conjunct1] rows)
  have h: "handler (Some ''1'') (Some ''62257'') (Some ''776482144628289536'') (RunOk scenario_run)
       sample_lookup
     = (RowsOk [\<lparr>name = ''Fireball'', damage = Num 1000, percent = Num 100,
                 crit_hits = ''2 / 10'', crit_rate = Num 20\<rparr>], [5])"
    by (simp add: handler_def handlerBody_def g fg scenario_find_player dd parse_1000 a)
  from r h show ?thesis by (rule conjI)
qed

end
